theory Spec2Isabelle
  imports Main
begin

section \<open>Python values\<close>

text \<open>
  A Python \<open>str\<close> is a sequence of Unicode code points, so it is modelled as a list of
  natural numbers. ASCII text is written \<open>u ''...''\<close>; other characters of the
  translation tables are given by their code point.
\<close>

type_synonym pystr = "nat list"

definition u :: "string \<Rightarrow> pystr" where
  "u s = map of_char s"

text \<open>
  The payloads of the sports-data service are the values \<open>json.loads\<close> returns. An
  object is an association list that stands for the parsed \<open>dict\<close> (its keys are
  distinct, in document order). Numbers are the integers; JSON fractions do not occur in
  the fields the program reads and are left out.
\<close>

datatype json =
    JNull
  | JBool bool
  | JInt int
  | JStr pystr
  | JArr "json list"
  | JObj "(pystr \<times> json) list"

datatype py_error =
    AttributeError | TypeError | KeyError | IndexError | ReError
  | HTTPError | JSONDecodeError | ServiceError

text \<open>\<open>str(n)\<close> for a Python integer.\<close>

fun dec :: "nat \<Rightarrow> pystr" where
  "dec n = (if n < 10 then [48 + n] else dec (n div 10) @ [48 + n mod 10])"

declare dec.simps [simp del]

definition str_int :: "int \<Rightarrow> pystr" where
  "str_int i = (if i < 0 then 45 # dec (nat (- i)) else dec (nat i))"

text \<open>
  \<open>str(v)\<close>, as an f-string applies it to a decoded value. The text of a list or of a
  dict is Python's \<open>repr\<close> of the container; it is the runtime's and is taken as the
  parameter \<open>repr\<close>.
\<close>

fun py_str :: "(json \<Rightarrow> pystr) \<Rightarrow> json \<Rightarrow> pystr" where
  "py_str repr JNull = u ''None''"
| "py_str repr (JBool b) = (if b then u ''True'' else u ''False'')"
| "py_str repr (JInt i) = str_int i"
| "py_str repr (JStr s) = s"
| "py_str repr (JArr xs) = repr (JArr xs)"
| "py_str repr (JObj kvs) = repr (JObj kvs)"

text \<open>Truth value of a decoded value, as \<open>if v:\<close> tests it.\<close>

fun truthy :: "json \<Rightarrow> bool" where
  "truthy JNull = False"
| "truthy (JBool b) = b"
| "truthy (JInt i) = (i \<noteq> 0)"
| "truthy (JStr s) = (s \<noteq> [])"
| "truthy (JArr xs) = (xs \<noteq> [])"
| "truthy (JObj kvs) = (kvs \<noteq> [])"

text \<open>
  \<open>d.get(key, default)\<close>. Only a dict has the method: on any other value the attribute
  lookup raises \<open>AttributeError\<close>.
\<close>

fun dict_get :: "json \<Rightarrow> pystr \<Rightarrow> json \<Rightarrow> py_error + json" where
  "dict_get (JObj kvs) k d = Inr (case map_of kvs k of None \<Rightarrow> d | Some v \<Rightarrow> v)"
| "dict_get _ k d = Inl AttributeError"

text \<open>The items a \<open>for\<close> loop draws from a decoded value.\<close>

fun py_iter :: "json \<Rightarrow> py_error + json list" where
  "py_iter (JArr xs) = Inr xs"
| "py_iter (JObj kvs) = Inr (map (\<lambda>kv. JStr (fst kv)) kvs)"
| "py_iter (JStr s) = Inr (map (\<lambda>c. JStr [c]) s)"
| "py_iter _ = Inl TypeError"

definition NA :: json where
  "NA = JStr (u ''N/A'')"

section \<open>External player directory client\<close>

text \<open>
  \<open>get_all_players(season)\<close> builds the address of the roster request. The f-string of
  the source has no placeholder: the text ends in the literal \<open>season=2024\<close>.
\<close>

definition get_all_players_url :: "int \<Rightarrow> pystr" where
  "get_all_players_url season =
     u ''https://statsapi.mlb.com/api/v1/sports/1/players?season=2024''"

definition get_player_details_url :: "int \<Rightarrow> pystr" where
  "get_player_details_url player_id =
     u ''https://statsapi.mlb.com/api/v1/people/'' @ str_int player_id @ u ''/''"

text \<open>The address and the query parameters of the request of \<open>get_player_stats\<close>.\<close>

definition get_player_stats_request :: "int \<Rightarrow> int \<Rightarrow> pystr \<times> (pystr \<times> pystr) list" where
  "get_player_stats_request player_id season =
     (u ''https://statsapi.mlb.com/api/v1/people/'' @ str_int player_id,
      [(u ''season'', str_int season),
       (u ''hydrate'',
        u ''stats(group=[hitting],type=season,season='' @ str_int season @ u '')'')])"

section \<open>Attribute localization tables\<close>

definition translations_attributes :: "(pystr \<times> (pystr \<times> pystr) list) list" where
  "translations_attributes =
    [(u ''Full Name'',
       [(u ''English'', u ''Full Name''),
        (u ''Spanish'', u ''Nombre Completo''),
        (u ''Japanese'', [0x30D5, 0x30EB, 0x30CD, 0x30FC, 0x30E0]),
        (u ''French'', u ''Nom Complet''),
        (u ''Chinese'', [0x5168, 0x540D])]),
     (u ''Primary Position'',
       [(u ''English'', u ''Primary Position''),
        (u ''Spanish'', u ''Posici'' @ [0xF3] @ u ''n Principal''),
        (u ''Japanese'', [0x4E3B, 0x306A, 0x30DD, 0x30B8, 0x30B7, 0x30E7, 0x30F3]),
        (u ''French'', u ''Position Principale''),
        (u ''Chinese'', [0x4E3B, 0x8981, 0x4F4D, 0x7F6E])]),
     (u ''Jersey Number'',
       [(u ''English'', u ''Jersey Number''),
        (u ''Spanish'', u ''N'' @ [0xFA] @ u ''mero de Camisa''),
        (u ''Japanese'', [0x30B8, 0x30E3, 0x30FC, 0x30B8, 0x756A, 0x53F7]),
        (u ''French'', u ''Num'' @ [0xE9] @ u ''ro de Maillot''),
        (u ''Chinese'', [0x7403, 0x8863, 0x53F7, 0x7801])]),
     (u ''Birth Date'',
       [(u ''English'', u ''Birth Date''),
        (u ''Spanish'', u ''Fecha de Nacimiento''),
        (u ''Japanese'', [0x751F, 0x5E74, 0x6708, 0x65E5]),
        (u ''French'', u ''Date de Naissance''),
        (u ''Chinese'', [0x51FA, 0x751F, 0x65E5, 0x671F])]),
     (u ''Current Age'',
       [(u ''English'', u ''Current Age''),
        (u ''Spanish'', u ''Edad Actual''),
        (u ''Japanese'', [0x73FE, 0x5728, 0x306E, 0x5E74, 0x9F62]),
        (u ''French'', [0xC2] @ u ''ge Actuel''),
        (u ''Chinese'', [0x5F53, 0x524D, 0x5E74, 0x9F84])]),
     (u ''Birthplace'',
       [(u ''English'', u ''Birthplace''),
        (u ''Spanish'', u ''Lugar de Nacimiento''),
        (u ''Japanese'', [0x51FA, 0x751F, 0x5730]),
        (u ''French'', u ''Lieu de Naissance''),
        (u ''Chinese'', [0x51FA, 0x751F, 0x5730])]),
     (u ''Height'',
       [(u ''English'', u ''Height''),
        (u ''Spanish'', u ''Altura''),
        (u ''Japanese'', [0x8EAB, 0x9577]),
        (u ''French'', u ''Taille''),
        (u ''Chinese'', [0x8EAB, 0x9AD8])]),
     (u ''Weight (lbs)'',
       [(u ''English'', u ''Weight (lbs)''),
        (u ''Spanish'', u ''Peso (lbs)''),
        (u ''Japanese'', [0x4F53, 0x91CD] @ u '' ('' @ [0x30DD, 0x30F3, 0x30C9] @ u '')''),
        (u ''French'', u ''Poids (lbs)''),
        (u ''Chinese'', [0x4F53, 0x91CD] @ u '' ('' @ [0x78C5] @ u '')'')]),
     (u ''Active Player'',
       [(u ''English'', u ''Active Player''),
        (u ''Spanish'', u ''Jugador Activo''),
        (u ''Japanese'', [0x73FE, 0x5F79, 0x9078, 0x624B]),
        (u ''French'', u ''Joueur Actif''),
        (u ''Chinese'', [0x73B0, 0x5F79, 0x7403, 0x5458])]),
     (u ''MLB Debut Date'',
       [(u ''English'', u ''MLB Debut Date''),
        (u ''Spanish'', u ''Fecha del Debut en MLB''),
        (u ''Japanese'', u ''MLB '' @ [0x30C7, 0x30D3, 0x30E5, 0x30FC, 0x65E5]),
        (u ''French'', u ''Date des D'' @ [0xE9] @ u ''buts en MLB''),
        (u ''Chinese'', u ''MLB '' @ [0x9996, 0x79C0, 0x65E5, 0x671F])]),
     (u ''Bats'',
       [(u ''English'', u ''Bats''),
        (u ''Spanish'', u ''Batea''),
        (u ''Japanese'', [0x6253, 0x6483]),
        (u ''French'', u ''Bats''),
        (u ''Chinese'', [0x6253, 0x51FB])]),
     (u ''Throws'',
       [(u ''English'', u ''Throws''),
        (u ''Spanish'', u ''Lanza''),
        (u ''Japanese'', [0x6295, 0x3052, 0x308B]),
        (u ''French'', u ''Lance''),
        (u ''Chinese'', [0x6295, 0x63B7])]),
     (u ''Nickname'',
       [(u ''English'', u ''Nickname''),
        (u ''Spanish'', u ''Apodo''),
        (u ''Japanese'', [0x30CB, 0x30C3, 0x30AF, 0x30CD, 0x30FC, 0x30E0]),
        (u ''French'', u ''Surnom''),
        (u ''Chinese'', [0x6635, 0x79F0])])]"

definition translations_stats :: "(pystr \<times> (pystr \<times> pystr) list) list" where
  "translations_stats =
    [(u ''Team'',
       [(u ''Spanish'', u ''Equipo''),
        (u ''Japanese'', [0x30C1, 0x30FC, 0x30E0]),
        (u ''French'', [0xC9] @ u ''quipe''),
        (u ''Chinese'', [0x7403, 0x961F])]),
     (u ''Player'',
       [(u ''Spanish'', u ''Jugador''),
        (u ''Japanese'', [0x9078, 0x624B]),
        (u ''French'', u ''Joueur''),
        (u ''Chinese'', [0x7403, 0x5458])]),
     (u ''League'',
       [(u ''Spanish'', u ''Liga''),
        (u ''Japanese'', [0x30EA, 0x30FC, 0x30B0]),
        (u ''French'', u ''Ligue''),
        (u ''Chinese'', [0x8054, 0x8D5B])]),
     (u ''Sport'',
       [(u ''Spanish'', u ''Deporte''),
        (u ''Japanese'', [0x30B9, 0x30DD, 0x30FC, 0x30C4]),
        (u ''French'', u ''Sport''),
        (u ''Chinese'', [0x4F53, 0x80B2])]),
     (u ''Games Played'',
       [(u ''Spanish'', u ''Juegos Jugados''),
        (u ''Japanese'', [0x8A66, 0x5408, 0x6570]),
        (u ''French'', u ''Matchs jou'' @ [0xE9] @ u ''s''),
        (u ''Chinese'', [0x6BD4, 0x8D5B, 0x573A, 0x6B21])]),
     (u ''Ground Outs'',
       [(u ''Spanish'', u ''Eliminaciones en Tierra''),
        (u ''Japanese'', [0x30B4, 0x30ED, 0x30A2, 0x30A6, 0x30C8]),
        (u ''French'', u ''Retir'' @ [0xE9] @ u ''s au sol''),
        (u ''Chinese'', [0x6EDA, 0x5730, 0x51FA, 0x5C40])]),
     (u ''Air Outs'',
       [(u ''Spanish'', u ''Eliminaciones por Aire''),
        (u ''Japanese'', [0x30D5, 0x30E9, 0x30A4, 0x30A2, 0x30A6, 0x30C8]),
        (u ''French'', u ''Retir'' @ [0xE9] @ u ''s en l'' @ [0x27] @ u ''air''),
        (u ''Chinese'', [0x98DE, 0x7403, 0x51FA, 0x5C40])]),
     (u ''Runs'',
       [(u ''Spanish'', u ''Carreras''),
        (u ''Japanese'', [0x5F97, 0x70B9]),
        (u ''French'', u ''Points''),
        (u ''Chinese'', [0x5F97, 0x5206])]),
     (u ''Doubles'',
       [(u ''Spanish'', u ''Dobles''),
        (u ''Japanese'', [0x4E8C, 0x5841, 0x6253]),
        (u ''French'', u ''Doubles''),
        (u ''Chinese'', [0x4E8C, 0x5792, 0x6253])]),
     (u ''Triples'',
       [(u ''Spanish'', u ''Triples''),
        (u ''Japanese'', [0x4E09, 0x5841, 0x6253]),
        (u ''French'', u ''Triples''),
        (u ''Chinese'', [0x4E09, 0x5792, 0x6253])]),
     (u ''Home Runs'',
       [(u ''Spanish'', u ''Jonrones''),
        (u ''Japanese'', [0x672C, 0x5841, 0x6253]),
        (u ''French'', u ''Circuits''),
        (u ''Chinese'', [0x672C, 0x5792, 0x6253])]),
     (u ''Strike Outs'',
       [(u ''Spanish'', u ''Ponches''),
        (u ''Japanese'', [0x4E09, 0x632F]),
        (u ''French'', u ''Retir'' @ [0xE9] @ u ''s sur des prises''),
        (u ''Chinese'', [0x4E09, 0x632F, 0x51FA, 0x5C40])]),
     (u ''Base On Balls'',
       [(u ''Spanish'', u ''Bases por Bolas''),
        (u ''Japanese'', [0x56DB, 0x7403]),
        (u ''French'', u ''But sur balles''),
        (u ''Chinese'', [0x56DB, 0x574F, 0x7403])]),
     (u ''Hits'',
       [(u ''Spanish'', u ''Hits''),
        (u ''Japanese'', [0x5B89, 0x6253]),
        (u ''French'', u ''Coups s'' @ [0xFB] @ u ''rs''),
        (u ''Chinese'', [0x5B89, 0x6253])]),
     (u ''At Bats'',
       [(u ''Spanish'', u ''Turnos al Bate''),
        (u ''Japanese'', [0x6253, 0x6570]),
        (u ''French'', u ''Pr'' @ [0xE9] @ u ''sences au b'' @ [0xE2] @ u ''ton''),
        (u ''Chinese'', [0x6253, 0x5E2D])]),
     (u ''Stolen Bases'',
       [(u ''Spanish'', u ''Bases Robadas''),
        (u ''Japanese'', [0x76D7, 0x5841]),
        (u ''French'', u ''But vol'' @ [0xE9]),
        (u ''Chinese'', [0x76D7, 0x5792])]),
     (u ''RBI'',
       [(u ''Spanish'', u ''Carreras Impulsadas''),
        (u ''Japanese'', [0x6253, 0x70B9]),
        (u ''French'', u ''Points produits''),
        (u ''Chinese'', [0x6253, 0x70B9])])]"

text \<open>
  Both lookups are two chained \<open>dict.get\<close> with the key itself as the last default.
  The attribute table is the dict of lines 232-324 and the stat table the dict of lines
  416-435; their keys are distinct, so \<open>map_of\<close> reads them as the dict does.
\<close>

definition translate_attribute :: "pystr \<Rightarrow> pystr \<Rightarrow> pystr" where
  "translate_attribute attribute_name language =
     (case map_of translations_attributes attribute_name of
        None \<Rightarrow> attribute_name
      | Some m \<Rightarrow> (case map_of m language of None \<Rightarrow> attribute_name | Some s \<Rightarrow> s))"

definition get_translated_stat :: "pystr \<Rightarrow> pystr \<Rightarrow> pystr" where
  "get_translated_stat stat_name selected_lang =
     (case map_of translations_stats stat_name of
        None \<Rightarrow> stat_name
      | Some m \<Rightarrow> (case map_of m selected_lang of None \<Rightarrow> stat_name | Some s \<Rightarrow> s))"


section \<open>Player resolver\<close>

text \<open>
  \<open>str.strip()\<close> removes the leading and trailing characters for which
  \<open>str.isspace\<close> holds; these are the white-space characters of Unicode.
\<close>

definition is_space :: "nat \<Rightarrow> bool" where
  "is_space c \<longleftrightarrow>
     (0x09 \<le> c \<and> c \<le> 0x0D) \<or> (0x1C \<le> c \<and> c \<le> 0x20) \<or> c = 0x85 \<or> c = 0xA0 \<or>
     c = 0x1680 \<or> (0x2000 \<le> c \<and> c \<le> 0x200A) \<or> c = 0x2028 \<or> c = 0x2029 \<or>
     c = 0x202F \<or> c = 0x205F \<or> c = 0x3000"

definition strip :: "pystr \<Rightarrow> pystr" where
  "strip s = rev (dropWhile is_space (rev (dropWhile is_space s)))"

text \<open>
  \<open>re.escape\<close> puts a backslash (code point 92) before each character of its table
  of special characters: \<open>()[]{}?*+-|^$\.&~#\<close>, the blank, and the controls tab,
  line feed, carriage return, vertical tab and form feed.
\<close>

definition re_special :: "nat list" where
  "re_special = u ''()[]{}?*+-|^$'' @ [92] @ u ''.&~# '' @ [9, 10, 13, 11, 12]"

fun re_escape :: "pystr \<Rightarrow> pystr" where
  "re_escape [] = []"
| "re_escape (c # cs) =
     (if c \<in> set re_special then 92 # c # re_escape cs else c # re_escape cs)"

text \<open>
  Reading a pattern. The patterns interpreted here are the sequences of literal
  characters: a character that is no operator of the pattern language stands for itself,
  and a backslash followed by a character other than an ASCII letter or digit stands for
  that character. On every other pattern the result is \<open>None\<close>: this covers the
  patterns \<open>re.compile\<close> rejects (a dangling backslash, an unbalanced parenthesis,
  a quantifier with nothing to repeat) and the ones with operators.
\<close>

definition re_meta :: "nat list" where
  "re_meta = u ''.'' @ [92] @ u ''[{()*+?^$|''"

definition ascii_alnum :: "nat \<Rightarrow> bool" where
  "ascii_alnum c \<longleftrightarrow> (48 \<le> c \<and> c \<le> 57) \<or> (65 \<le> c \<and> c \<le> 90) \<or> (97 \<le> c \<and> c \<le> 122)"

fun re_literal :: "pystr \<Rightarrow> pystr option" where
  "re_literal [] = Some []"
| "re_literal (c # cs) =
     (if c = 92 then
        (case cs of
           [] \<Rightarrow> None
         | d # ds \<Rightarrow> if ascii_alnum d then None else map_option ((#) d) (re_literal ds))
      else if c \<in> set re_meta then None
      else map_option ((#) c) (re_literal cs))"

text \<open>
  Matching a sequence of literals. Under \<open>re.IGNORECASE\<close> each literal of the pattern
  is compared with one character of the text through the case table of Unicode; that
  table is the runtime's, so the comparison is the parameter \<open>ieq\<close>
  (\<open>ieq c d\<close>: pattern character \<open>c\<close> accepts text character \<open>d\<close>).
  \<open>re_search\<close> looks for a match at any position, as \<open>regex.search\<close> does.
\<close>

fun match_at :: "(nat \<Rightarrow> nat \<Rightarrow> bool) \<Rightarrow> pystr \<Rightarrow> pystr \<Rightarrow> bool" where
  "match_at ieq [] t = True"
| "match_at ieq (c # cs) [] = False"
| "match_at ieq (c # cs) (d # ds) = (ieq c d \<and> match_at ieq cs ds)"

fun re_search :: "(nat \<Rightarrow> nat \<Rightarrow> bool) \<Rightarrow> pystr \<Rightarrow> pystr \<Rightarrow> bool" where
  "re_search ieq p [] = match_at ieq p []"
| "re_search ieq p (d # ds) = (match_at ieq p (d # ds) \<or> re_search ieq p ds)"

text \<open>The comparison for ASCII text: letters \<open>A\<close> to \<open>Z\<close> fold to lower case.\<close>

definition ascii_lower :: "nat \<Rightarrow> nat" where
  "ascii_lower c = (if 65 \<le> c \<and> c \<le> 90 then c + 32 else c)"

definition ieq_ascii :: "nat \<Rightarrow> nat \<Rightarrow> bool" where
  "ieq_ascii c d \<longleftrightarrow> ascii_lower c = ascii_lower d"

text \<open>
  The roster frame. A row carries the columns \<open>id\<close> and \<open>fullName\<close> that the
  resolver reads; a cell of \<open>fullName\<close> that holds no string (NaN) is \<open>None\<close>.
  The frame itself is \<open>None\<close> when the fetch returned \<open>None\<close>.
\<close>

record roster_row =
  row_id :: int
  fullName :: "pystr option"

text \<open>
  \<open>Series.str.contains(pat, case=False, na=False)\<close>: the pattern is compiled once,
  then searched in every cell; a cell without a string gives \<open>False\<close>.
\<close>

definition str_contains ::
  "(nat \<Rightarrow> nat \<Rightarrow> bool) \<Rightarrow> pystr \<Rightarrow> pystr option list \<Rightarrow> py_error + bool list" where
  "str_contains ieq pat cells =
     (case re_literal pat of
        None \<Rightarrow> Inl ReError
      | Some lits \<Rightarrow>
          Inr (map (\<lambda>cell. case cell of None \<Rightarrow> False | Some s \<Rightarrow> re_search ieq lits s) cells))"

text \<open>Boolean indexing \<open>df[mask]\<close>: the rows whose mask entry is true, in order.\<close>

definition select_rows :: "bool list \<Rightarrow> 'a list \<Rightarrow> 'a list" where
  "select_rows matched rows = map snd (filter fst (zip matched rows))"

text \<open>
  A message shown to the user: a fixed text, or a prefix followed by the text of a caught
  exception (which is the runtime's and is kept symbolic).
\<close>

datatype message = Text pystr | ExcText pystr py_error

definition empty_roster_message :: message where
  "empty_roster_message = Text (u ''Players list is empty or unavailable.'')"

definition no_match_message :: "pystr \<Rightarrow> message" where
  "no_match_message player_name =
     Text (u ''No player found with the name '' @ [0x27] @ player_name @ [0x27] @ u ''.'')"

text \<open>
  \<open>search_player_by_name\<close> returns the pair \<open>(player_id, None)\<close> or
  \<open>(None, message)\<close>; the pair is the sum \<open>Inr player_id\<close> or \<open>Inl message\<close>.
  The \<open>except\<close> branch is the branch of a pattern that does not compile.
\<close>

definition search_player_by_name ::
  "(nat \<Rightarrow> nat \<Rightarrow> bool) \<Rightarrow> roster_row list option \<Rightarrow> pystr \<Rightarrow> message + int" where
  "search_player_by_name ieq players_df player_name =
     (case players_df of
        None \<Rightarrow> Inl empty_roster_message
      | Some rows \<Rightarrow>
          if rows = [] then Inl empty_roster_message
          else
            (let escaped_name = re_escape (strip player_name) in
             case str_contains ieq escaped_name (map fullName rows) of
               Inl e \<Rightarrow> Inl (ExcText (u ''Error during player search: '') e)
             | Inr matched \<Rightarrow>
                 (case select_rows matched rows of
                    [] \<Rightarrow> Inl (no_match_message player_name)
                  | player_row # _ \<Rightarrow> Inr (row_id player_row))))"

text \<open>
  The test of one roster row against a sequence of literals: the case-insensitive search
  of the literals in the cell \<open>fullName\<close>, false for a cell without a string.
\<close>

definition name_contains :: "(nat \<Rightarrow> nat \<Rightarrow> bool) \<Rightarrow> pystr \<Rightarrow> roster_row \<Rightarrow> bool" where
  "name_contains ieq q r = (case fullName r of None \<Rightarrow> False | Some s \<Rightarrow> re_search ieq q s)"

section \<open>Player summary formatter\<close>

definition try_bind :: "'e + 'a \<Rightarrow> ('a \<Rightarrow> 'e + 'b) \<Rightarrow> 'e + 'b" where
  "try_bind r f = (case r of Inl e \<Rightarrow> Inl e | Inr x \<Rightarrow> f x)"

text \<open>\<open>obj.get(outer, {}).get(inner, "N/A")\<close>.\<close>

definition get_nested :: "json \<Rightarrow> pystr \<Rightarrow> pystr \<Rightarrow> py_error + json" where
  "get_nested obj outer inner =
     try_bind (dict_get obj outer (JObj [])) (\<lambda>d. dict_get d inner NA)"

text \<open>
  The dict \<open>key_attributes\<close> of lines 331-345, its thirteen items in the order of the
  literal. An item whose lookup raises ends the evaluation with that exception.
\<close>

definition key_attributes :: "(json \<Rightarrow> pystr) \<Rightarrow> json \<Rightarrow> py_error + (pystr \<times> json) list" where
  "key_attributes repr player_info =
     try_bind (dict_get player_info (u ''fullName'') NA) (\<lambda>full_name.
     try_bind (get_nested player_info (u ''primaryPosition'') (u ''name'')) (\<lambda>primary_position.
     try_bind (dict_get player_info (u ''primaryNumber'') NA) (\<lambda>primary_number.
     try_bind (dict_get player_info (u ''birthDate'') NA) (\<lambda>birth_date.
     try_bind (dict_get player_info (u ''currentAge'') NA) (\<lambda>current_age.
     try_bind (dict_get player_info (u ''birthCity'') NA) (\<lambda>birth_city.
     try_bind (dict_get player_info (u ''birthStateProvince'') NA) (\<lambda>birth_state_province.
     try_bind (dict_get player_info (u ''birthCountry'') NA) (\<lambda>birth_country.
     try_bind (dict_get player_info (u ''height'') NA) (\<lambda>height.
     try_bind (dict_get player_info (u ''weight'') NA) (\<lambda>weight.
     try_bind (dict_get player_info (u ''active'') JNull) (\<lambda>active.
     try_bind (dict_get player_info (u ''mlbDebutDate'') NA) (\<lambda>mlb_debut_date.
     try_bind (get_nested player_info (u ''batSide'') (u ''description'')) (\<lambda>bat_side.
     try_bind (get_nested player_info (u ''pitchHand'') (u ''description'')) (\<lambda>pitch_hand.
     try_bind (dict_get player_info (u ''nickName'') NA) (\<lambda>nick_name.
     Inr [(u ''Full Name'', full_name),
          (u ''Primary Position'', primary_position),
          (u ''Jersey Number'', primary_number),
          (u ''Birth Date'', birth_date),
          (u ''Current Age'', current_age),
          (u ''Birthplace'',
             JStr (py_str repr birth_city @ u '', '' @ py_str repr birth_state_province @
                   u '', '' @ py_str repr birth_country)),
          (u ''Height'', height),
          (u ''Weight (lbs)'', weight),
          (u ''Active Player'', JStr (if truthy active then u ''Yes'' else u ''No'')),
          (u ''MLB Debut Date'', mlb_debut_date),
          (u ''Bats'', bat_side),
          (u ''Throws'', pitch_hand),
          (u ''Nickname'', nick_name)])))))))))))))))"

text \<open>
  Building a dict from items in order (a dict comprehension): a key met again keeps its
  place and takes the new value. \<open>dict_items\<close> is the item list of the result.
\<close>

fun dict_put :: "'k \<Rightarrow> 'v \<Rightarrow> ('k \<times> 'v) list \<Rightarrow> ('k \<times> 'v) list" where
  "dict_put k v [] = [(k, v)]"
| "dict_put k v (kv # rest) =
     (if fst kv = k then (k, v) # rest else kv # dict_put k v rest)"

definition dict_items :: "('k \<times> 'v) list \<Rightarrow> ('k \<times> 'v) list" where
  "dict_items kvs = foldl (\<lambda>d kv. dict_put (fst kv) (snd kv) d) [] kvs"

text \<open>
  The rows (Attribute, Value) of \<open>details_df\<close>. The column Value always holds the
  string of Active Player, so pandas keeps it under the dtype object, every value as it is.
\<close>

definition details_df :: "pystr \<Rightarrow> (pystr \<times> json) list \<Rightarrow> (pystr \<times> json) list" where
  "details_df language attrs =
     dict_items (map (\<lambda>kv. (translate_attribute (fst kv) language, snd kv)) attrs)"

text \<open>
  The prose summary is one of five f-strings over \<open>key_attributes\<close>, chosen by the
  \<open>if\<close>/\<open>elif\<close> chain of lines 355-404. The chain is modelled; the wording of the
  templates is not transcribed.
\<close>

datatype template = Spanish_summary | Japanese_summary | French_summary | Chinese_summary | English_summary

definition summary_template :: "pystr \<Rightarrow> template" where
  "summary_template language =
     (if language = u ''Spanish'' then Spanish_summary
      else if language = u ''Japanese'' then Japanese_summary
      else if language = u ''French'' then French_summary
      else if language = u ''Chinese'' then Chinese_summary
      else English_summary)"

section \<open>Stat flattening pipeline\<close>

subsection \<open>Values as a data frame stores them\<close>

text \<open>
  pandas stores every column of a frame under one dtype, which \<open>pd.DataFrame\<close> infers
  from the values of the column. A stored value is the decoded value itself or a
  float64; the floats that arise here come from integers and from \<open>None\<close>, so a
  float is given by the integer it equals, and \<open>Float None\<close> is NaN.
\<close>

datatype stored = Py json | Float "int option"

datatype dtype = Object_dtype | Int64_dtype | UInt64_dtype | Float64_dtype | Bool_dtype

text \<open>
  The float64 nearest to an integer (ties to the even mantissa): the integer keeps its
  53 leading bits. \<open>excess_bits a\<close> is the number of bits of \<open>a\<close> beyond 53.
\<close>

function excess_bits :: "nat \<Rightarrow> nat" where
  "excess_bits a = (if a < 2 ^ 53 then 0 else Suc (excess_bits (a div 2)))"
  by pat_completeness auto
termination
  by (relation "measure (\<lambda>a. a)") auto

declare excess_bits.simps [simp del]

definition round_float64 :: "int \<Rightarrow> int" where
  "round_float64 n =
     (let a = nat \<bar>n\<bar>;
          e = excess_bits a;
          q = a div 2 ^ e;
          r = a mod 2 ^ e;
          q' = (if 2 ^ e < 2 * r \<or> (2 * r = 2 ^ e \<and> odd q) then q + 1 else q)
      in (if n < 0 then - 1 else 1) * int (q' * 2 ^ e))"

fun as_float64 :: "json \<Rightarrow> stored" where
  "as_float64 (JInt n) = Float (Some (round_float64 n))"
| "as_float64 v = Float None"

fun is_int :: "json \<Rightarrow> bool" where
  "is_int (JInt n) = True"
| "is_int v = False"

fun big_int :: "json \<Rightarrow> bool" where
  "big_int (JInt n) = (n < - (2 ^ 63) \<or> 2 ^ 63 \<le> n)"
| "big_int v = False"

fun is_object :: "json \<Rightarrow> bool" where
  "is_object (JStr s) = True"
| "is_object (JArr xs) = True"
| "is_object (JObj kvs) = True"
| "is_object v = False"

text \<open>
  What the library does in the cases not written out below is taken as a parameter:
  \<open>infer_other\<close> gives, for the values of a column, its dtype and the conversion of
  each value; \<open>concat_other\<close> gives, for the dtypes of the columns that \<open>pd.melt\<close>
  stacks into one, the conversion of each stored value to their common dtype.
\<close>

record pandas =
  infer_other :: "json list \<Rightarrow> dtype \<times> (json \<Rightarrow> stored)"
  concat_other :: "dtype list \<Rightarrow> stored \<Rightarrow> stored"

text \<open>
  The dtype inferred for a column of decoded values, where every integer fits 64 bits
  signed:
  \<^item> a string, a list or a dict among the values: dtype object, the values kept;
  \<^item> integers only: int64, the values kept;
  \<^item> integers and \<open>None\<close>, nothing else: float64, each integer converted to the
    nearest float and \<open>None\<close> to NaN.
  The other columns (a boolean among the values, \<open>None\<close> alone, an integer beyond
  64 bits) are left to \<open>infer_other\<close>.
\<close>

definition infer_column :: "pandas \<Rightarrow> json list \<Rightarrow> dtype \<times> stored list" where
  "infer_column pd col =
     (if list_ex big_int col then
        (case infer_other pd col of (d, conv) \<Rightarrow> (d, map conv col))
      else if list_ex is_object col then (Object_dtype, map Py col)
      else if col \<noteq> [] \<and> list_all is_int col then (Int64_dtype, map Py col)
      else if list_ex is_int col \<and> list_all (\<lambda>v. is_int v \<or> v = JNull) col then
        (Float64_dtype, map as_float64 col)
      else (case infer_other pd col of (d, conv) \<Rightarrow> (d, map conv col)))"

text \<open>A pandas whose parameters keep every value, for frames that do not reach them.\<close>

definition pandas_keep :: pandas where
  "pandas_keep =
     \<lparr>infer_other = (\<lambda>col. (Object_dtype, Py)), concat_other = (\<lambda>dtypes v. v)\<rparr>"

subsection \<open>The page\<close>

text \<open>What the page shows, in order.\<close>

datatype ui =
    St_write pystr
  | St_error message
  | St_success pystr
  | St_table "(pystr \<times> json) list"
  | St_markdown template "(pystr \<times> json) list"
  | St_dataframe "pystr \<times> pystr" "(pystr \<times> stored) list"

subsection \<open>Flattening and the two-column table\<close>

text \<open>The dict \<open>flattened_split\<close> of lines 457-466.\<close>

definition flattened_split :: "json \<Rightarrow> py_error + (pystr \<times> json) list" where
  "flattened_split split =
     try_bind (get_nested split (u ''team'') (u ''name'')) (\<lambda>team.
     try_bind (get_nested split (u ''player'') (u ''fullName'')) (\<lambda>player.
     try_bind (get_nested split (u ''stat'') (u ''gamesPlayed'')) (\<lambda>games_played.
     try_bind (get_nested split (u ''stat'') (u ''runs'')) (\<lambda>runs.
     try_bind (get_nested split (u ''stat'') (u ''hits'')) (\<lambda>hits.
     try_bind (get_nested split (u ''stat'') (u ''homeRuns'')) (\<lambda>home_runs.
     try_bind (get_nested split (u ''stat'') (u ''stolenBases'')) (\<lambda>stolen_bases.
     try_bind (get_nested split (u ''stat'') (u ''rbi'')) (\<lambda>rbi.
     Inr [(u ''Team'', team),
          (u ''Player'', player),
          (u ''Games Played'', games_played),
          (u ''Runs'', runs),
          (u ''Hits'', hits),
          (u ''Home Runs'', home_runs),
          (u ''Stolen Bases'', stolen_bases),
          (u ''RBI'', rbi)]))))))))"

text \<open>
  A data frame is kept by columns: the column name, the dtype and the stored values, one
  per row. \<open>DataFrame\<close> builds it from a list of records; the columns are the keys of
  the records (all records of \<open>cleaned_data\<close> have the same eight keys, so the missing
  value of \<open>cell\<close> does not arise), each column stored under its inferred dtype.
\<close>

type_synonym frame = "(pystr \<times> dtype \<times> stored list) list"

definition cell :: "(pystr \<times> json) list \<Rightarrow> pystr \<Rightarrow> json" where
  "cell rec k = (case map_of rec k of Some v \<Rightarrow> v | None \<Rightarrow> JNull)"

definition DataFrame :: "pandas \<Rightarrow> (pystr \<times> json) list list \<Rightarrow> frame" where
  "DataFrame pd records =
     (case records of
        [] \<Rightarrow> []
      | r # _ \<Rightarrow>
          map (\<lambda>k. (k, infer_column pd (map (\<lambda>rec. cell rec k) records))) (map fst r))"

definition drop_column :: "pystr \<Rightarrow> frame \<Rightarrow> frame" where
  "drop_column name df = filter (\<lambda>col. fst col \<noteq> name) df"

text \<open>\<open>df.empty\<close>: no column or no row.\<close>

definition df_empty :: "frame \<Rightarrow> bool" where
  "df_empty df = (case df of [] \<Rightarrow> True | col # _ \<Rightarrow> snd (snd col) = [])"

text \<open>
  \<open>pd.melt(df, var_name="Stat", value_name="Value")\<close>: one row (column name, value) for
  every cell, column after column. The values are stacked into one column of the common
  dtype of the columns: when a column is of dtype object, or all columns have the same
  dtype, every value stays as its column stores it; the other conversions are left to
  \<open>concat_other\<close>.
\<close>

definition melt :: "pandas \<Rightarrow> frame \<Rightarrow> (pystr \<times> stored) list" where
  "melt pd df =
     (let dtypes = map (\<lambda>col. fst (snd col)) df;
          conv = (if list_ex (\<lambda>d. d = Object_dtype) dtypes \<or>
                     (case dtypes of [] \<Rightarrow> True | d # ds \<Rightarrow> list_all (\<lambda>d'. d' = d) ds)
                  then (\<lambda>v. v) else concat_other pd dtypes)
      in concat (map (\<lambda>col. map (\<lambda>v. (fst col, conv v)) (snd (snd col))) df))"

text \<open>
  The table shown for the records gathered so far (lines 470-485): the frame without the
  column Player, melted, its stat names and its two headers passed through
  \<open>get_translated_stat\<close>.
\<close>

definition stats_df_two_columns ::
  "pandas \<Rightarrow> pystr \<Rightarrow> frame \<Rightarrow> (pystr \<times> pystr) \<times> (pystr \<times> stored) list" where
  "stats_df_two_columns pd language stats_df =
     ((get_translated_stat (u ''Stat'') language, get_translated_stat (u ''Value'') language),
      map (\<lambda>row. (get_translated_stat (fst row) language, snd row)) (melt pd stats_df))"

definition no_data_message :: pystr where
  "no_data_message = u ''No data available for this group.''"

text \<open>
  The loop over the splits of one group (lines 455-490). The frame is rebuilt and shown
  inside the loop, after every record appended. What was shown before an exception stays
  on the page, so the result is the list of things shown together with the exception, if
  any, that ended the loop.
\<close>

fun show_splits ::
  "pandas \<Rightarrow> pystr \<Rightarrow> (pystr \<times> json) list list \<Rightarrow> json list \<Rightarrow> ui list \<times> py_error option" where
  "show_splits pd language cleaned_data [] = ([], None)"
| "show_splits pd language cleaned_data (split # rest) =
     (case flattened_split split of
        Inl e \<Rightarrow> ([], Some e)
      | Inr flat \<Rightarrow>
          (let cleaned_data' = cleaned_data @ [flat];
               stats_df = drop_column (u ''Player'') (DataFrame pd cleaned_data');
               shown = (if \<not> df_empty stats_df
                        then (case stats_df_two_columns pd language stats_df of
                                (header, body) \<Rightarrow> St_dataframe header body)
                        else St_write no_data_message);
               later = show_splits pd language cleaned_data' rest
           in (shown # fst later, snd later)))"

text \<open>
  One pass of the loop over the stat groups (lines 443-490). \<open>group_name\<close> and
  \<open>stats_type\<close> are computed and not used; their lookups raise when the group is no
  dict. The title reads \<open>key_attributes['Full Name']\<close>.
\<close>

definition season_title :: "(json \<Rightarrow> pystr) \<Rightarrow> json \<Rightarrow> int \<Rightarrow> pystr" where
  "season_title repr full_name season =
     u ''**'' @ py_str repr full_name @ u ''** - '' @ str_int season @ u '' Season Stats:''"

definition show_group ::
  "(json \<Rightarrow> pystr) \<Rightarrow> pandas \<Rightarrow> pystr \<Rightarrow> json \<Rightarrow> int \<Rightarrow> json \<Rightarrow> ui list \<times> py_error option" where
  "show_group repr pd language full_name season stat_group =
     (case try_bind (dict_get stat_group (u ''group'') NA)
                    (\<lambda>group_name. dict_get stat_group (u ''type'') NA) of
        Inl e \<Rightarrow> ([], Some e)
      | Inr stats_type \<Rightarrow>
          (let title = St_write (season_title repr full_name season) in
           case dict_get stat_group (u ''splits'') (JArr []) of
             Inl e \<Rightarrow> ([title], Some e)
           | Inr stats_splits \<Rightarrow>
               if truthy stats_splits then
                 (case py_iter stats_splits of
                    Inl e \<Rightarrow> ([title], Some e)
                  | Inr splits \<Rightarrow>
                      (let shown = show_splits pd language [] splits
                       in (title # fst shown, snd shown)))
               else ([title], None)))"

fun show_groups ::
  "(json \<Rightarrow> pystr) \<Rightarrow> pandas \<Rightarrow> pystr \<Rightarrow> json \<Rightarrow> int \<Rightarrow> json list \<Rightarrow>
   ui list \<times> py_error option" where
  "show_groups repr pd language full_name season [] = ([], None)"
| "show_groups repr pd language full_name season (stat_group # rest) =
     (case show_group repr pd language full_name season stat_group of
        (shown, Some e) \<Rightarrow> (shown, Some e)
      | (shown, None) \<Rightarrow>
          (let later = show_groups repr pd language full_name season rest
           in (shown @ fst later, snd later)))"

text \<open>\<open>if player_stats:\<close> and the loop over it (lines 442-443).\<close>

definition show_stats ::
  "(json \<Rightarrow> pystr) \<Rightarrow> pandas \<Rightarrow> pystr \<Rightarrow> json \<Rightarrow> int \<Rightarrow> json option \<Rightarrow>
   ui list \<times> py_error option" where
  "show_stats repr pd language full_name season player_stats =
     (case player_stats of
        None \<Rightarrow> ([], None)
      | Some stats \<Rightarrow>
          if truthy stats then
            (case py_iter stats of
               Inl e \<Rightarrow> ([], Some e)
             | Inr groups \<Rightarrow> show_groups repr pd language full_name season groups)
          else ([], None))"

section \<open>Analysis flow\<close>

text \<open>
  The collaborators of one analysis action. Each field is what the collaborator answers:
  the text of the image model, or the exception its call raised; the exception of the
  write to the collection \<open>users\<close>, if any; the frame \<open>process_endpoint_url\<close> built
  for an address and a key to pop, or the exception raised in its \<open>try\<close> block; the
  response to a GET for an address with query parameters (status code and body, the
  body \<open>None\<close> when it is no JSON), or the exception of the request.
\<close>

datatype response = Response nat "json option"

record user_doc =
  doc_email :: pystr
  doc_player_name :: pystr
  doc_language :: pystr

record world =
  gemini_text :: "py_error + pystr"
  users_add :: "py_error option"
  endpoint_frame :: "pystr \<Rightarrow> pystr \<Rightarrow> py_error + roster_row list"
  requests_get :: "pystr \<Rightarrow> (pystr \<times> pystr) list \<Rightarrow> py_error + response"

definition process_endpoint_url :: "world \<Rightarrow> pystr \<Rightarrow> pystr \<Rightarrow> roster_row list option \<times> ui list" where
  "process_endpoint_url w endpoint_url pop_key =
     (case endpoint_frame w endpoint_url pop_key of
        Inl e \<Rightarrow> (None, [St_error (ExcText (u ''Error processing endpoint: '') e)])
      | Inr df_result \<Rightarrow> (Some df_result, []))"

definition get_all_players :: "world \<Rightarrow> int \<Rightarrow> roster_row list option \<times> ui list" where
  "get_all_players w season = process_endpoint_url w (get_all_players_url season) (u ''people'')"

text \<open>\<open>response.raise_for_status()\<close> raises for the status codes 400 to 599.\<close>

definition get_player_details :: "world \<Rightarrow> int \<Rightarrow> json option \<times> ui list" where
  "get_player_details w player_id =
     (let failed = (\<lambda>e. (None, [St_error (ExcText (u ''Error fetching player details: '') e)])) in
      case requests_get w (get_player_details_url player_id) [] of
        Inl e \<Rightarrow> failed e
      | Inr (Response status body) \<Rightarrow>
          if 400 \<le> status \<and> status < 600 then failed HTTPError
          else (case body of None \<Rightarrow> failed JSONDecodeError | Some data \<Rightarrow> (Some data, [])))"

definition get_player_name_from_image :: "world \<Rightarrow> pystr option \<times> ui list" where
  "get_player_name_from_image w =
     (case gemini_text w of
        Inl e \<Rightarrow> (None, [St_error (ExcText (u ''Error generating Gemini response: '') e)])
      | Inr text \<Rightarrow> (Some (strip text), []))"

text \<open>
  \<open>save_user_data\<close>: the identification event is one document added to the collection
  \<open>users\<close>. The result is what is shown and the documents written.
\<close>

definition save_user_data :: "world \<Rightarrow> pystr \<Rightarrow> pystr \<Rightarrow> pystr \<Rightarrow> ui list \<times> user_doc list" where
  "save_user_data w email player_name language =
     (case users_add w of
        None \<Rightarrow>
          ([St_success (u ''Data saved for '' @ player_name @ u ''.'')],
           [\<lparr>doc_email = email, doc_player_name = player_name, doc_language = language\<rparr>])
      | Some e \<Rightarrow> ([St_error (ExcText (u ''Error saving user data: '') e)], []))"

text \<open>\<open>x[0]\<close> on a decoded value.\<close>

fun py_getitem0 :: "json \<Rightarrow> py_error + json" where
  "py_getitem0 (JArr []) = Inl IndexError"
| "py_getitem0 (JArr (x # xs)) = Inr x"
| "py_getitem0 (JStr []) = Inl IndexError"
| "py_getitem0 (JStr (c # cs)) = Inr (JStr [c])"
| "py_getitem0 (JObj kvs) = Inl KeyError"
| "py_getitem0 _ = Inl TypeError"

text \<open>\<open>data.get("people", [{}])[0].get("stats", [])\<close>.\<close>

definition extract_stats :: "json \<Rightarrow> py_error + json" where
  "extract_stats data =
     try_bind (dict_get data (u ''people'') (JArr [JObj []])) (\<lambda>people.
     try_bind (py_getitem0 people) (\<lambda>person.
     dict_get person (u ''stats'') (JArr [])))"

definition get_player_stats :: "world \<Rightarrow> int \<Rightarrow> int \<Rightarrow> json option \<times> ui list" where
  "get_player_stats w player_id season =
     (let failed = (\<lambda>e. (None, [St_error (ExcText
                      (u ''An unexpected error occurred while fetching player stats: '') e)])) in
      case get_player_stats_request player_id season of
        (url, params) \<Rightarrow>
          (case requests_get w url params of
             Inl e \<Rightarrow> failed e
           | Inr (Response status body) \<Rightarrow>
               if status = 200 then
                 (case body of
                    None \<Rightarrow> failed JSONDecodeError
                  | Some data \<Rightarrow>
                      (case extract_stats data of
                         Inl e \<Rightarrow> failed e
                       | Inr stats \<Rightarrow> (Some stats, [])))
               else (None, [St_error (Text (u ''Error fetching stats: '' @ dec status))])))"

text \<open>
  \<open>player_details and "people" in player_details\<close> (line 225) and
  \<open>player_details["people"][0]\<close> (line 227), on any decoded value.
\<close>

definition people_present :: "json \<Rightarrow> py_error + bool" where
  "people_present player_details =
     (if \<not> truthy player_details then Inr False
      else case player_details of
             JObj kvs \<Rightarrow> Inr (u ''people'' \<in> fst ` set kvs)
           | JArr xs \<Rightarrow> Inr (JStr (u ''people'') \<in> set xs)
           | JStr s \<Rightarrow> Inr (re_search (=) (u ''people'') s)
           | _ \<Rightarrow> Inl TypeError)"

definition first_person :: "json \<Rightarrow> py_error + json" where
  "first_person player_details =
     (case player_details of
        JObj kvs \<Rightarrow> (case map_of kvs (u ''people'') of None \<Rightarrow> Inl KeyError | Some p \<Rightarrow> py_getitem0 p)
      | _ \<Rightarrow> Inl TypeError)"

text \<open>
  Lines 225-490: the attribute table, the summary, the stats. The title of a stat group
  reads \<open>key_attributes['Full Name']\<close>, a key the dict always has.
\<close>

definition show_player ::
  "(json \<Rightarrow> pystr) \<Rightarrow> pandas \<Rightarrow> world \<Rightarrow> pystr \<Rightarrow> int \<Rightarrow> int \<Rightarrow> json \<Rightarrow>
   ui list \<times> py_error option" where
  "show_player repr pd w language season player_id player_details =
     (case people_present player_details of
        Inl e \<Rightarrow> ([], Some e)
      | Inr False \<Rightarrow> ([], None)
      | Inr True \<Rightarrow>
          (case try_bind (first_person player_details) (key_attributes repr) of
             Inl e \<Rightarrow> ([], Some e)
           | Inr attrs \<Rightarrow>
               (let shown = [St_table (details_df language attrs),
                             St_markdown (summary_template language) attrs];
                    fetched = get_player_stats w player_id season
                in case map_of attrs (u ''Full Name'') of
                     None \<Rightarrow> (shown @ snd fetched, Some KeyError)
                   | Some full_name \<Rightarrow>
                       (let stats = show_stats repr pd language full_name season (fst fetched)
                        in (shown @ snd fetched @ fst stats, snd stats)))))"

text \<open>
  Lines 208-223 and the \<open>except\<close> of line 494, from the roster fetch on. \<open>st.stop()\<close>
  ends the action. Nothing here writes to the store.
\<close>

definition after_save ::
  "(nat \<Rightarrow> nat \<Rightarrow> bool) \<Rightarrow> (json \<Rightarrow> pystr) \<Rightarrow> pandas \<Rightarrow> world \<Rightarrow> pystr \<Rightarrow> pystr \<Rightarrow>
   ui list" where
  "after_save ieq repr pd w gemini_response language =
     (let season = 2024;
          fetched = get_all_players w season;
          players_df = fst fetched
      in snd fetched @
         (if players_df = None \<or> players_df = Some [] then
            [St_error (Text (u ''Could not fetch players for the 2024 season.''))]
          else
            (case search_player_by_name ieq players_df gemini_response of
               Inl error_message \<Rightarrow> [St_error error_message]
             | Inr player_id \<Rightarrow>
                 (case get_player_details w player_id of
                    (None, shown) \<Rightarrow> shown
                  | (Some player_details, shown) \<Rightarrow>
                      (case show_player repr pd w language season player_id player_details of
                         (shown', None) \<Rightarrow> shown @ shown'
                       | (shown', Some e) \<Rightarrow>
                           shown @ shown' @
                           [St_error (ExcText (u ''Error during analysis: '') e)])))))"

text \<open>
  The handler of the button (lines 186-495), for an uploaded image. The result is the
  page and the documents written to the collection \<open>users\<close>.
\<close>

definition analyze ::
  "(nat \<Rightarrow> nat \<Rightarrow> bool) \<Rightarrow> (json \<Rightarrow> pystr) \<Rightarrow> pandas \<Rightarrow> world \<Rightarrow> pystr \<Rightarrow> pystr \<Rightarrow>
   ui list \<times> user_doc list" where
  "analyze ieq repr pd w email language =
     (if email = [] then
        ([St_error (Text (u ''Please enter your email before analyzing the image.''))], [])
      else
        (case get_player_name_from_image w of
           (gemini_response, shown) \<Rightarrow>
             (let extracted = St_write (u ''Extracted Player Name: '' @
                                (case gemini_response of None \<Rightarrow> u ''None'' | Some name \<Rightarrow> name));
                  unreadable = St_error (Text (u ''Could not extract player name from the image.''))
              in case gemini_response of
                   None \<Rightarrow> (shown @ [extracted, unreadable], [])
                 | Some name \<Rightarrow>
                     if name = [] then (shown @ [extracted, unreadable], [])
                     else
                       (case save_user_data w email name language of
                          (saved, written) \<Rightarrow>
                            (shown @ [extracted] @ saved @ after_save ieq repr pd w name language,
                             written)))))"

text \<open>
  The eight keys of \<open>flattened_split\<close>, and the seven columns left when Player is
  dropped.
\<close>

definition flattened_keys :: "pystr list" where
  "flattened_keys =
     [u ''Team'', u ''Player'', u ''Games Played'', u ''Runs'', u ''Hits'', u ''Home Runs'',
      u ''Stolen Bases'', u ''RBI'']"

definition shown_columns :: "pystr list" where
  "shown_columns =
     [u ''Team'', u ''Games Played'', u ''Runs'', u ''Hits'', u ''Home Runs'',
      u ''Stolen Bases'', u ''RBI'']"

text \<open>
  Reading the two-column table: the values of the rows whose stat name is \<open>name\<close>,
  from top to bottom.
\<close>

definition read_stat :: "pystr \<Rightarrow> (pystr \<times> stored) list \<Rightarrow> stored list" where
  "read_stat name body = map snd (filter (\<lambda>row. fst row = name) body)"



text \<open>
  A value that a frame keeps whatever else its column holds, as long as the column holds
  such values only: a string or an integer of 64 bits.
\<close>

fun plain :: "json \<Rightarrow> bool" where
  "plain (JStr s) = True"
| "plain (JInt n) = (- (2 ^ 63) \<le> n \<and> n < 2 ^ 63)"
| "plain v = False"

text \<open>Three splits: the team is \<open>null\<close>; the runs are \<open>null\<close>; the runs are 2^53 + 1.\<close>

definition split_null_team :: json where
  "split_null_team =
     JObj [(u ''team'', JNull),
           (u ''stat'', JObj [(u ''gamesPlayed'', JInt 158), (u ''runs'', JInt 122),
                              (u ''hits'', JInt 180), (u ''homeRuns'', JInt 58),
                              (u ''stolenBases'', JInt 10), (u ''rbi'', JInt 144)])]"

definition split_null_runs :: json where
  "split_null_runs =
     JObj [(u ''team'', JObj [(u ''name'', JStr (u ''New York Yankees''))]),
           (u ''stat'', JObj [(u ''gamesPlayed'', JInt 1), (u ''runs'', JNull),
                              (u ''hits'', JInt 0), (u ''homeRuns'', JInt 0),
                              (u ''stolenBases'', JInt 0), (u ''rbi'', JInt 0)])]"

definition split_big_runs :: json where
  "split_big_runs =
     JObj [(u ''team'', JObj [(u ''name'', JStr (u ''New York Yankees''))]),
           (u ''stat'', JObj [(u ''gamesPlayed'', JInt 158), (u ''runs'', JInt 9007199254740993),
                              (u ''hits'', JInt 180), (u ''homeRuns'', JInt 58),
                              (u ''stolenBases'', JInt 10), (u ''rbi'', JInt 144)])]"

text \<open>The values read under a stat name from one thing shown (none when it is no table).\<close>

fun read_shown :: "pystr \<Rightarrow> ui \<Rightarrow> stored list" where
  "read_shown name (St_dataframe header body) = read_stat name body"
| "read_shown name shown = []"

text \<open>A split of a season of hitting, as the service sends it.\<close>

definition example_split :: json where
  "example_split =
     JObj [(u ''season'', JStr (u ''2024'')),
           (u ''stat'', JObj [(u ''gamesPlayed'', JInt 158), (u ''groundOuts'', JInt 81),
                              (u ''runs'', JInt 122), (u ''homeRuns'', JInt 58),
                              (u ''hits'', JInt 180), (u ''avg'', JStr (u ''.322'')),
                              (u ''stolenBases'', JInt 10), (u ''rbi'', JInt 144)]),
           (u ''team'', JObj [(u ''id'', JInt 147), (u ''name'', JStr (u ''New York Yankees''))]),
           (u ''player'', JObj [(u ''id'', JInt 592450), (u ''fullName'', JStr (u ''Aaron Judge''))])]"

text \<open>The thirteen keys of \<open>key_attributes\<close>, in the order of the literal.\<close>

definition attribute_names :: "pystr list" where
  "attribute_names =
     [u ''Full Name'', u ''Primary Position'', u ''Jersey Number'', u ''Birth Date'',
      u ''Current Age'', u ''Birthplace'', u ''Height'', u ''Weight (lbs)'', u ''Active Player'',
      u ''MLB Debut Date'', u ''Bats'', u ''Throws'', u ''Nickname'']"

text \<open>
  A world in which the image model names a player and the store accepts the write, while
  every request to the directory service fails.
\<close>

definition directory_down :: world where
  "directory_down =
     \<lparr>gemini_text = Inr (u ''Aaron Judge''),
      users_add = None,
      endpoint_frame = (\<lambda>url pop_key. Inl HTTPError),
      requests_get = (\<lambda>url params. Inl HTTPError)\<rparr>"

section \<open>Properties of text literals\<close>

lemma u_eq_iff: "u s = u t \<longleftrightarrow> s = t"
  by (simp add: u_def inj_map_eq_map [OF inj_of_char])

section \<open>Properties of the directory client\<close>

text \<open>
  Claim C8: \<open>get_all_players(season)\<close> should request the roster of the season it is
  given. The address it builds ends in \<open>season=2024\<close> whatever the argument: for the
  season 2023 the request is the one for 2024, while \<open>get_player_stats\<close> does put its
  season argument into the query.
\<close>

theorem get_all_players_url_season_2023:
  "get_all_players_url 2023 =
     u ''https://statsapi.mlb.com/api/v1/sports/1/players?season=2024'' \<and>
   map_of (snd (get_player_stats_request 592450 2023)) (u ''season'') = Some (u ''2023'')"
  by (simp add: get_all_players_url_def get_player_stats_request_def str_int_def dec.simps
      u_eq_iff u_def)

lemma get_all_players_url_constant: "get_all_players_url s = get_all_players_url s'"
  by (simp add: get_all_players_url_def)

section \<open>Properties of the localization tables\<close>

text \<open>
  Claim C2: the header \<open>Stat\<close> should come back translated for Spanish and unchanged
  for English. The stat table has no entry for the key \<open>Stat\<close>, so the lookup gives
  the key back for Spanish as well.
\<close>

theorem get_translated_stat_header_spanish:
  "get_translated_stat (u ''Stat'') (u ''Spanish'') = u ''Stat''"
  by (simp add: get_translated_stat_def translations_stats_def u_eq_iff)

lemma get_translated_stat_header:
  "get_translated_stat (u ''Stat'') language = u ''Stat''"
  "get_translated_stat (u ''Value'') language = u ''Value''"
  by (simp_all add: get_translated_stat_def translations_stats_def u_eq_iff)

text \<open>
  Claim C9: for a key that the attribute table does not have, \<open>translate_attribute\<close>
  returns the key unchanged, for every language.
\<close>

theorem translate_attribute_absent_key:
  assumes "attribute_name \<notin> fst ` set translations_attributes"
  shows "translate_attribute attribute_name language = attribute_name"
proof -
  have "map_of translations_attributes attribute_name = None"
    using assms by (simp add: map_of_eq_None_iff)
  then show ?thesis by (simp add: translate_attribute_def)
qed

theorem translate_attribute_absent_key_witness:
  "u ''Salary'' \<notin> fst ` set translations_attributes \<and>
   translate_attribute (u ''Salary'') (u ''Spanish'') = u ''Salary''"
proof -
  have absent: "u ''Salary'' \<notin> fst ` set translations_attributes"
    by (simp add: translations_attributes_def u_eq_iff)
  show ?thesis
    using absent translate_attribute_absent_key [OF absent, of "u ''Spanish''"] by simp
qed

section \<open>Properties of the resolver\<close>

subsection \<open>An escaped query is a sequence of literals\<close>

lemma special_not_alnum: "c \<in> set re_special \<Longrightarrow> \<not> ascii_alnum c"
  by (auto simp: re_special_def ascii_alnum_def u_def)

lemma meta_special: "c \<in> set re_meta \<Longrightarrow> c \<in> set re_special"
  by (auto simp: re_special_def re_meta_def u_def)

lemma backslash_special: "92 \<in> set re_special"
  by (simp add: re_special_def u_def)

lemma re_literal_escape: "re_literal (re_escape s) = Some s"
proof (induction s)
  case Nil
  then show ?case by simp
next
  case (Cons c cs)
  show ?case
  proof (cases "c \<in> set re_special")
    case True
    then show ?thesis using Cons special_not_alnum [OF True] by simp
  next
    case False
    then have "c \<noteq> 92" "c \<notin> set re_meta"
      using backslash_special meta_special by auto
    then show ?thesis using False Cons by simp
  qed
qed

subsection \<open>Searching is substring containment\<close>



subsection \<open>The rows selected\<close>

lemma select_rows_map: "select_rows (map f rows) rows = filter f rows"
  by (induction rows) (simp_all add: select_rows_def)


lemma search_player_by_name_rows:
  assumes "rows \<noteq> []"
  shows "search_player_by_name ieq (Some rows) q =
           (case filter (name_contains ieq (strip q)) rows of
              [] \<Rightarrow> Inl (no_match_message q)
            | r # _ \<Rightarrow> Inr (row_id r))"
proof -
  have "str_contains ieq (re_escape (strip q)) (map fullName rows) =
          Inr (map (name_contains ieq (strip q)) rows)"
    by (simp add: str_contains_def re_literal_escape name_contains_def)
  then show ?thesis
    using assms by (simp add: search_player_by_name_def select_rows_map)
qed





text \<open>The scenario of the specification: one row, the query in lower case.\<close>

lemma search_player_by_name_scenario:
  "search_player_by_name ieq_ascii
     (Some [\<lparr>row_id = 1, fullName = Some (u ''Aaron Judge'')\<rparr>]) (u ''aaron judge'') = Inr 1"
  by (simp add: search_player_by_name_def str_contains_def select_rows_def re_special_def
      re_meta_def ascii_alnum_def strip_def is_space_def ieq_ascii_def ascii_lower_def u_def)

text \<open>A comparison that does not ignore case finds nothing for that query.\<close>

lemma search_player_by_name_case_sensitive:
  "search_player_by_name (=)
     (Some [\<lparr>row_id = 1, fullName = Some (u ''Aaron Judge'')\<rparr>]) (u ''aaron judge'') =
   Inl (no_match_message (u ''aaron judge''))"
  by (simp add: search_player_by_name_def str_contains_def select_rows_def re_special_def
      re_meta_def ascii_alnum_def strip_def is_space_def u_def)

text \<open>Queries with pattern operators: the dot is no wildcard, an open bracket no fault.\<close>

lemma search_player_by_name_dot:
  "search_player_by_name ieq_ascii
     (Some [\<lparr>row_id = 8, fullName = Some (u ''AxJy Minter'')\<rparr>,
            \<lparr>row_id = 7, fullName = Some (u ''A.J. Minter'')\<rparr>]) (u ''a.j.'') = Inr 7"
  by (simp add: search_player_by_name_def str_contains_def select_rows_def re_special_def
      re_meta_def ascii_alnum_def strip_def is_space_def ieq_ascii_def ascii_lower_def u_def
      no_match_message_def)

lemma search_player_by_name_bracket:
  "search_player_by_name ieq_ascii
     (Some [\<lparr>row_id = 8, fullName = Some (u ''AxJy Minter'')\<rparr>]) (u ''(a.j*['') =
   Inl (no_match_message (u ''(a.j*[''))"
  by (simp add: search_player_by_name_def str_contains_def select_rows_def re_special_def
      re_meta_def ascii_alnum_def strip_def is_space_def ieq_ascii_def ascii_lower_def u_def
      no_match_message_def)

text \<open>
  Claim C5: on a roster that is \<open>None\<close> or has no row, the resolver answers with the
  message of the empty roster, for every query; that message is none of the messages
  of a failed match, so the caller can tell the two faults apart.
\<close>

theorem search_player_by_name_empty_roster:
  "search_player_by_name ieq None q = Inl empty_roster_message \<and>
   search_player_by_name ieq (Some []) q = Inl empty_roster_message \<and>
   empty_roster_message \<noteq> no_match_message q'"
  by (simp add: search_player_by_name_def empty_roster_message_def no_match_message_def u_def)

subsection \<open>Stripping the query\<close>

lemma dropWhile_fixed: "xs = [] \<or> \<not> P (hd xs) \<Longrightarrow> dropWhile P xs = xs"
  by (cases xs) auto

lemma dropWhile_head: "dropWhile P xs = [] \<or> \<not> P (hd (dropWhile P xs))"
  by (metis hd_dropWhile)

lemma rtrim_prefix: "rev (dropWhile P (rev t)) @ rev (takeWhile P (rev t)) = t"
  by (metis rev_append rev_rev_ident takeWhile_dropWhile_id)

lemma rtrim_head:
  assumes "t = [] \<or> \<not> P (hd t)"
  shows "rev (dropWhile P (rev t)) = [] \<or> \<not> P (hd (rev (dropWhile P (rev t))))"
proof (cases "rev (dropWhile P (rev t)) = []")
  case True
  then show ?thesis by simp
next
  case False
  then have "hd (rev (dropWhile P (rev t))) = hd t"
    by (metis hd_append2 rtrim_prefix)
  moreover have "t \<noteq> []" using False by auto
  ultimately show ?thesis using assms by simp
qed

lemma strip_idem: "strip (strip s) = strip s"
proof -
  have "dropWhile is_space (strip s) = strip s"
    unfolding strip_def by (rule dropWhile_fixed, rule rtrim_head, rule dropWhile_head)
  then show ?thesis by (simp add: strip_def)
qed

lemma messages_differ: "empty_roster_message \<noteq> no_match_message q"
  by (simp add: empty_roster_message_def no_match_message_def u_def)

text \<open>
  Claim C10, as stated: the resolver gives the same result for a query and for the
  query stripped. It does not: when no row matches, the message quotes the query as it
  was given, with the white space around it.
\<close>

theorem search_player_by_name_strip_counterexample:
  "search_player_by_name ieq_ascii
     (Some [\<lparr>row_id = 1, fullName = Some (u ''Aaron Judge'')\<rparr>]) (u '' zz '') \<noteq>
   search_player_by_name ieq_ascii
     (Some [\<lparr>row_id = 1, fullName = Some (u ''Aaron Judge'')\<rparr>]) (strip (u '' zz ''))"
  by (simp add: search_player_by_name_def str_contains_def select_rows_def re_special_def
      re_meta_def ascii_alnum_def strip_def is_space_def ieq_ascii_def ascii_lower_def
      no_match_message_def u_def)

text \<open>
  Claim C10, amended: for every roster and every query, the resolver finds the same
  player id for the query and for the query stripped, and fails with the same kind of
  fault: the empty roster for both, or no match for both, each no-match message quoting
  the query it was given.
\<close>

theorem search_player_by_name_strip:
  "(search_player_by_name ieq players_df q = Inr i \<longleftrightarrow>
      search_player_by_name ieq players_df (strip q) = Inr i) \<and>
   (search_player_by_name ieq players_df q = Inl empty_roster_message \<longleftrightarrow>
      search_player_by_name ieq players_df (strip q) = Inl empty_roster_message) \<and>
   (search_player_by_name ieq players_df q = Inl (no_match_message q) \<longleftrightarrow>
      search_player_by_name ieq players_df (strip q) = Inl (no_match_message (strip q)))"
proof (cases "players_df = None \<or> players_df = Some []")
  case True
  then show ?thesis
    by (auto simp: search_player_by_name_def messages_differ)
next
  case False
  then obtain rows where r: "players_df = Some rows" "rows \<noteq> []" by auto
  show ?thesis
    unfolding r(1) search_player_by_name_rows [OF r(2)] strip_idem
    by (cases "filter (name_contains ieq (strip q)) rows")
       (simp_all add: messages_differ [symmetric])
qed

theorem search_player_by_name_strip_witness:
  "search_player_by_name ieq_ascii
     (Some [\<lparr>row_id = 1, fullName = Some (u ''Aaron Judge'')\<rparr>]) (u ''  judge '') = Inr 1 \<and>
   search_player_by_name ieq_ascii
     (Some [\<lparr>row_id = 1, fullName = Some (u ''Aaron Judge'')\<rparr>]) (strip (u ''  judge '')) = Inr 1"
  using search_player_by_name_strip
          [of ieq_ascii "Some [\<lparr>row_id = 1, fullName = Some (u ''Aaron Judge'')\<rparr>]"
              "u ''  judge ''" 1]
  by (simp add: search_player_by_name_def str_contains_def select_rows_def re_special_def
      re_meta_def ascii_alnum_def strip_def is_space_def ieq_ascii_def ascii_lower_def u_def)

section \<open>Properties of the summary formatter\<close>

lemma dict_put_fresh: "k \<notin> fst ` set d \<Longrightarrow> dict_put k v d = d @ [(k, v)]"
  by (induction d) auto

lemma dict_items_append:
  "distinct (map fst (d @ kvs)) \<Longrightarrow>
   foldl (\<lambda>d kv. dict_put (fst kv) (snd kv) d) d kvs = d @ kvs"
proof (induction kvs arbitrary: d)
  case Nil
  then show ?case by simp
next
  case (Cons kv kvs)
  have fresh: "fst kv \<notin> fst ` set d" using Cons.prems by auto
  have "distinct (map fst ((d @ [kv]) @ kvs))" using Cons.prems by simp
  from Cons.IH [OF this] show ?case
    by (simp add: dict_put_fresh [OF fresh])
qed

lemma dict_items_distinct: "distinct (map fst kvs) \<Longrightarrow> dict_items kvs = kvs"
  using dict_items_append [of "[]" kvs] by (simp add: dict_items_def)

lemma language_cases:
  obtains "language = u ''English''" | "language = u ''Spanish''" | "language = u ''Japanese''"
    | "language = u ''French''" | "language = u ''Chinese''"
    | "language \<noteq> u ''English''" "language \<noteq> u ''Spanish''" "language \<noteq> u ''Japanese''"
      "language \<noteq> u ''French''" "language \<noteq> u ''Chinese''"
  by blast

text \<open>In every language the thirteen labels are distinct, so no row of the table is lost.\<close>

lemma translated_attributes_distinct:
  "distinct (map (\<lambda>k. translate_attribute k language) attribute_names)"
  by (cases language rule: language_cases)
     ((simp add: attribute_names_def translate_attribute_def translations_attributes_def
         u_eq_iff, (simp add: u_def)?)+)

lemma key_attributes_empty:
  "key_attributes repr (JObj []) =
     Inr [(u ''Full Name'', NA),
          (u ''Primary Position'', NA),
          (u ''Jersey Number'', NA),
          (u ''Birth Date'', NA),
          (u ''Current Age'', NA),
          (u ''Birthplace'', JStr (u ''N/A, N/A, N/A'')),
          (u ''Height'', NA),
          (u ''Weight (lbs)'', NA),
          (u ''Active Player'', JStr (u ''No'')),
          (u ''MLB Debut Date'', NA),
          (u ''Bats'', NA),
          (u ''Throws'', NA),
          (u ''Nickname'', NA)]"
  by (simp add: key_attributes_def try_bind_def get_nested_def NA_def u_def)

text \<open>
  Claim C3, as stated: for a detail record without any field, every one of the thirteen
  values is \<open>N/A\<close>. The value of Active Player is not: an absent flag counts as
  false and renders as \<open>No\<close>.
\<close>

theorem key_attributes_empty_active_counterexample:
  "map_sum id (\<lambda>attrs. map_of attrs (u ''Active Player''))
     (key_attributes (\<lambda>v. []) (JObj [])) = Inr (Some (JStr (u ''No''))) \<and>
   JStr (u ''No'') \<noteq> NA"
  by (simp add: key_attributes_empty u_eq_iff NA_def)

text \<open>
  Claim C3, amended: for a detail record without any field the formatter raises nothing
  and, in every language, the table has its thirteen rows; eleven values are \<open>N/A\<close>,
  the value of Birthplace is \<open>N/A, N/A, N/A\<close> and the value of Active Player is
  \<open>No\<close>.
\<close>

theorem details_df_key_attributes_empty:
  "try_bind (key_attributes repr (JObj [])) (\<lambda>attrs. Inr (details_df language attrs)) =
     Inr [(translate_attribute (u ''Full Name'') language, NA),
          (translate_attribute (u ''Primary Position'') language, NA),
          (translate_attribute (u ''Jersey Number'') language, NA),
          (translate_attribute (u ''Birth Date'') language, NA),
          (translate_attribute (u ''Current Age'') language, NA),
          (translate_attribute (u ''Birthplace'') language, JStr (u ''N/A, N/A, N/A'')),
          (translate_attribute (u ''Height'') language, NA),
          (translate_attribute (u ''Weight (lbs)'') language, NA),
          (translate_attribute (u ''Active Player'') language, JStr (u ''No'')),
          (translate_attribute (u ''MLB Debut Date'') language, NA),
          (translate_attribute (u ''Bats'') language, NA),
          (translate_attribute (u ''Throws'') language, NA),
          (translate_attribute (u ''Nickname'') language, NA)]"
  unfolding key_attributes_empty try_bind_def details_df_def
  using translated_attributes_distinct [of language]
  by (simp add: dict_items_distinct attribute_names_def)

section \<open>Properties of the stat flattening pipeline\<close>

subsection \<open>The frame and the table of the records gathered so far\<close>

text \<open>In every language the seven stat names shown are distinct.\<close>

lemma translated_stats_distinct:
  "distinct (map (\<lambda>c. get_translated_stat c language) shown_columns)"
  by (cases language rule: language_cases)
     ((simp add: shown_columns_def get_translated_stat_def translations_stats_def
         u_eq_iff, (simp add: u_def)?)+)

lemma filter_concat_columns:
  "distinct (map f cols) \<Longrightarrow> c \<in> set cols \<Longrightarrow>
   filter (\<lambda>row. fst row = f c) (concat (map (\<lambda>c'. map (\<lambda>r. (f c', g r c')) rs) cols)) =
   map (\<lambda>r. (f c, g r c)) rs"
proof (induction cols)
  case Nil
  then show ?case by simp
next
  case (Cons a cols)
  show ?case
  proof (cases "c = a")
    case True
    then have "f c \<notin> f ` set cols" using Cons.prems by auto
    then have "filter (\<lambda>row. fst row = f c) (concat (map (\<lambda>c'. map (\<lambda>r. (f c', g r c')) rs) cols)) = []"
      by (auto simp: filter_empty_conv) (metis imageI)
    then show ?thesis using True by simp
  next
    case False
    then have "c \<in> set cols" "f a \<noteq> f c" "distinct (map f cols)" using Cons.prems by auto
    then show ?thesis using Cons.IH by (simp add: filter_empty_conv)
  qed
qed

lemma flattened_split_keys: "flattened_split split = Inr flat \<Longrightarrow> map fst flat = flattened_keys"
  by (auto simp: flattened_split_def try_bind_def flattened_keys_def split: sum.splits)

lemma infer_column_length: "length (snd (infer_column pd col)) = length col"
  by (simp add: infer_column_def split: prod.splits)

lemma plain_not_big: "plain v \<Longrightarrow> \<not> big_int v"
  by (cases v) auto

lemma plain_int: "plain v \<Longrightarrow> \<not> is_object v \<Longrightarrow> is_int v"
  by (cases v) auto

lemma infer_column_plain:
  assumes "list_all plain col" "col \<noteq> []"
  shows "snd (infer_column pd col) = map Py col \<and>
         (fst (infer_column pd col) = Object_dtype \<or> fst (infer_column pd col) = Int64_dtype)"
proof -
  have nb: "\<not> list_ex big_int col"
    using assms(1) plain_not_big by (auto simp: list_ex_iff list_all_iff)
  show ?thesis
  proof (cases "list_ex is_object col")
    case True
    then show ?thesis using nb by (simp add: infer_column_def)
  next
    case False
    then have "list_all is_int col"
      using assms(1) plain_int by (auto simp: list_ex_iff list_all_iff)
    then show ?thesis using nb False assms(2) by (simp add: infer_column_def)
  qed
qed

lemma DataFrame_flat:
  assumes "list_all (\<lambda>flat. map fst flat = flattened_keys) records" "records \<noteq> []"
  shows "DataFrame pd records =
           map (\<lambda>k. (k, infer_column pd (map (\<lambda>rec. cell rec k) records))) flattened_keys"
  using assms by (cases records) (simp_all add: DataFrame_def)

lemma drop_player:
  "drop_column (u ''Player'') (map (\<lambda>k. (k, h k)) flattened_keys) = map (\<lambda>k. (k, h k)) shown_columns"
  by (simp add: drop_column_def flattened_keys_def shown_columns_def u_eq_iff)

lemma stats_frame:
  assumes "list_all (\<lambda>flat. map fst flat = flattened_keys) records" "records \<noteq> []"
  shows "drop_column (u ''Player'') (DataFrame pd records) =
           map (\<lambda>k. (k, infer_column pd (map (\<lambda>rec. cell rec k) records))) shown_columns"
  unfolding DataFrame_flat [OF assms] by (rule drop_player)

lemma stats_frame_not_empty:
  assumes "records \<noteq> []"
  shows "\<not> df_empty (map (\<lambda>k. (k, infer_column pd (map (\<lambda>rec. cell rec k) records)))
                      shown_columns)"
proof -
  have "snd (infer_column pd (map (\<lambda>rec. cell rec (u ''Team'')) records)) \<noteq> []"
    using infer_column_length [of pd "map (\<lambda>rec. cell rec (u ''Team'')) records"] assms
    by (metis length_0_conv length_map)
  then show ?thesis by (simp add: df_empty_def shown_columns_def)
qed

lemma dtypes_kept:
  assumes "list_all (\<lambda>d. d = Object_dtype \<or> d = Int64_dtype) dtypes"
  shows "list_ex (\<lambda>d. d = Object_dtype) dtypes \<or>
         (case dtypes of [] \<Rightarrow> True | d # ds \<Rightarrow> list_all (\<lambda>d'. d' = d) ds)"
proof (cases "list_ex (\<lambda>d. d = Object_dtype) dtypes")
  case True
  then show ?thesis by simp
next
  case False
  then have "list_all (\<lambda>d. d = Int64_dtype) dtypes"
    using assms by (auto simp: list_ex_iff list_all_iff)
  then show ?thesis by (cases dtypes) (auto simp: list_all_iff)
qed

lemma melt_plain:
  assumes "\<And>k. k \<in> set cols \<Longrightarrow> list_all plain (c k)" "\<And>k. k \<in> set cols \<Longrightarrow> c k \<noteq> []"
  shows "melt pd (map (\<lambda>k. (k, infer_column pd (c k))) cols) =
           concat (map (\<lambda>k. map (\<lambda>v. (k, Py v)) (c k)) cols)"
proof -
  have kept: "list_all (\<lambda>d. d = Object_dtype \<or> d = Int64_dtype)
                (map (\<lambda>col. fst (snd col)) (map (\<lambda>k. (k, infer_column pd (c k))) cols))"
    using infer_column_plain [OF assms] by (auto simp: list_all_iff)
  have "melt pd (map (\<lambda>k. (k, infer_column pd (c k))) cols) =
          concat (map (\<lambda>col. map (\<lambda>v. (fst col, v)) (snd (snd col)))
                    (map (\<lambda>k. (k, infer_column pd (c k))) cols))"
    unfolding melt_def Let_def using dtypes_kept [OF kept] by (simp only: if_True)
  also have "\<dots> = concat (map (\<lambda>k. map (\<lambda>v. (k, v)) (snd (infer_column pd (c k)))) cols)"
    by (simp add: comp_def)
  also have "\<dots> = concat (map (\<lambda>k. map (\<lambda>v. (k, Py v)) (c k)) cols)"
  proof -
    have "map (\<lambda>k. map (\<lambda>v. (k, v)) (snd (infer_column pd (c k)))) cols =
          map (\<lambda>k. map (\<lambda>v. (k, Py v)) (c k)) cols"
      using infer_column_plain [OF assms] by (intro map_cong) (simp_all add: comp_def)
    then show ?thesis by (rule arg_cong)
  qed
  finally show ?thesis .
qed


lemma two_columns_plain:
  assumes "\<And>k. k \<in> set shown_columns \<Longrightarrow> list_all plain (map (\<lambda>rec. cell rec k) records)"
    and "records \<noteq> []"
  shows "stats_df_two_columns pd language
           (map (\<lambda>k. (k, infer_column pd (map (\<lambda>rec. cell rec k) records))) shown_columns) =
         ((u ''Stat'', u ''Value''),
          concat (map (\<lambda>c. map (\<lambda>rec. (get_translated_stat c language, Py (cell rec c))) records)
                    shown_columns))"
proof -
  have "melt pd (map (\<lambda>k. (k, infer_column pd (map (\<lambda>rec. cell rec k) records))) shown_columns) =
          concat (map (\<lambda>k. map (\<lambda>v. (k, Py v)) (map (\<lambda>rec. cell rec k) records)) shown_columns)"
    using assms by (intro melt_plain) simp_all
  then show ?thesis
    by (simp add: stats_df_two_columns_def get_translated_stat_header map_concat comp_def)
qed

lemma read_stat_body:
  assumes "c \<in> set shown_columns"
  shows "read_stat (get_translated_stat c language)
           (concat (map (\<lambda>c. map (\<lambda>rec. (get_translated_stat c language, Py (cell rec c))) records)
                      shown_columns)) = map (\<lambda>rec. Py (cell rec c)) records"
  unfolding read_stat_def
  using filter_concat_columns [OF translated_stats_distinct assms, of language
          "\<lambda>rec c. Py (cell rec c)" records]
  by (simp add: comp_def)

lemma show_splits_step:
  assumes "list_all (\<lambda>flat. map fst flat = flattened_keys) cleaned_data"
    and "flattened_split split = Inr flat"
  shows "show_splits pd language cleaned_data (split # rest) =
           ((case stats_df_two_columns pd language
                   (map (\<lambda>k. (k, infer_column pd (map (\<lambda>rec. cell rec k) (cleaned_data @ [flat]))))
                      shown_columns) of
               (header, body) \<Rightarrow> St_dataframe header body)
            # fst (show_splits pd language (cleaned_data @ [flat]) rest),
            snd (show_splits pd language (cleaned_data @ [flat]) rest))"
proof -
  have inv: "list_all (\<lambda>flat. map fst flat = flattened_keys) (cleaned_data @ [flat])"
    using assms flattened_split_keys by simp
  have ne: "cleaned_data @ [flat] \<noteq> []" by simp
  show ?thesis
    by (simp only: show_splits.simps assms(2) sum.case Let_def stats_frame [OF inv ne]
        stats_frame_not_empty [OF ne] not_False_eq_True if_True)
qed

text \<open>
  The records gathered in \<open>cleaned_data\<close> are results of \<open>flattened_split\<close>, so
  each has the eight keys; then the frame is never empty, and the branch that writes
  \<open>No data available for this group.\<close> is never taken.
\<close>

lemma show_splits_no_sentinel:
  "list_all (\<lambda>flat. map fst flat = flattened_keys) cleaned_data \<Longrightarrow>
   St_write no_data_message \<notin> set (fst (show_splits pd language cleaned_data splits))"
proof (induction splits arbitrary: cleaned_data)
  case Nil
  then show ?case by simp
next
  case (Cons split splits)
  show ?case
  proof (cases "flattened_split split")
    case (Inl e)
    then show ?thesis by simp
  next
    case (Inr flat)
    have inv: "list_all (\<lambda>flat. map fst flat = flattened_keys) (cleaned_data @ [flat])"
      using Cons.prems Inr flattened_split_keys by simp
    show ?thesis
      unfolding show_splits_step [OF Cons.prems Inr]
      using Cons.IH [OF inv] by (simp split: prod.splits)
  qed
qed

subsection \<open>A group without splits\<close>

text \<open>
  Claim C1: a stat group whose list of splits is empty should give one row saying that
  no data is available. For the group \<open>{group: hitting, type: season, splits: []}\<close>
  the page gets the title of the group and nothing else, and no exception is raised: the
  message \<open>No data available for this group.\<close> stands in the \<open>else\<close> of the test
  \<open>not stats_df.empty\<close> inside the loop over the splits, which an empty list never
  enters.
\<close>

theorem show_group_empty_splits:
  "show_group repr pd language full_name season
     (JObj [(u ''group'', JStr (u ''hitting'')), (u ''type'', JStr (u ''season'')),
            (u ''splits'', JArr [])]) =
   ([St_write (season_title repr full_name season)], None)"
  by (simp add: show_group_def try_bind_def u_eq_iff)

subsection \<open>Reading the counters back\<close>

lemma round_float64_example: "round_float64 9007199254740993 = 9007199254740992"
proof -
  have "excess_bits 9007199254740993 = 1" by (simp add: excess_bits.simps)
  then show ?thesis by (simp add: round_float64_def Let_def)
qed

text \<open>
  Claim C7, as stated: every split whose six counters are present is flattened, and the
  table gives each counter back unchanged. Two inputs show otherwise. A split whose team
  is \<open>null\<close> has its six counters and raises \<open>AttributeError\<close> in the flattening:
  the default of \<open>split.get("team", {})\<close> serves an absent key only. And when an
  earlier split of the group has \<open>null\<close> for its runs, the column Runs of the frame
  holds \<open>None\<close> beside integers and is stored as float64: the runs 2^53 + 1 of the
  second split, all six counters present, are read back as 2^53.
\<close>

theorem show_splits_rounded_counterexample:
  "flattened_split split_null_team = Inl AttributeError \<and>
   read_shown (u ''Runs'')
     (last (fst (show_splits pandas_keep (u ''English'') [] [split_null_runs, split_big_runs]))) =
     [Float None, Float (Some 9007199254740992)]"
proof -
  define flat1 where "flat1 =
    [(u ''Team'', JStr (u ''New York Yankees'')), (u ''Player'', NA),
     (u ''Games Played'', JInt 1), (u ''Runs'', JNull), (u ''Hits'', JInt 0),
     (u ''Home Runs'', JInt 0), (u ''Stolen Bases'', JInt 0), (u ''RBI'', JInt 0)]"
  define flat2 where "flat2 =
    [(u ''Team'', JStr (u ''New York Yankees'')), (u ''Player'', NA),
     (u ''Games Played'', JInt 158), (u ''Runs'', JInt 9007199254740993),
     (u ''Hits'', JInt 180), (u ''Home Runs'', JInt 58), (u ''Stolen Bases'', JInt 10),
     (u ''RBI'', JInt 144)]"
  have a: "flattened_split split_null_team = Inl AttributeError"
    by (simp add: flattened_split_def get_nested_def try_bind_def split_null_team_def u_eq_iff)
  have f1: "flattened_split split_null_runs = Inr flat1"
    by (simp add: flattened_split_def get_nested_def try_bind_def split_null_runs_def u_eq_iff
        flat1_def)
  have f2: "flattened_split split_big_runs = Inr flat2"
    by (simp add: flattened_split_def get_nested_def try_bind_def split_big_runs_def u_eq_iff
        flat2_def)
  have inv0: "list_all (\<lambda>flat. map fst flat = flattened_keys) []" by simp
  have inv1: "list_all (\<lambda>flat. map fst flat = flattened_keys) ([] @ [flat1])"
    using flattened_split_keys [OF f1] by simp
  have frame2: "map (\<lambda>k. (k, infer_column pandas_keep (map (\<lambda>rec. cell rec k) [flat1, flat2])))
                  shown_columns =
      [(u ''Team'', Object_dtype,
          [Py (JStr (u ''New York Yankees'')), Py (JStr (u ''New York Yankees''))]),
       (u ''Games Played'', Int64_dtype, [Py (JInt 1), Py (JInt 158)]),
       (u ''Runs'', Float64_dtype, [Float None, Float (Some 9007199254740992)]),
       (u ''Hits'', Int64_dtype, [Py (JInt 0), Py (JInt 180)]),
       (u ''Home Runs'', Int64_dtype, [Py (JInt 0), Py (JInt 58)]),
       (u ''Stolen Bases'', Int64_dtype, [Py (JInt 0), Py (JInt 10)]),
       (u ''RBI'', Int64_dtype, [Py (JInt 0), Py (JInt 144)])]"
    by (simp add: shown_columns_def cell_def flat1_def flat2_def u_eq_iff infer_column_def
        pandas_keep_def round_float64_example)
  have tr: "get_translated_stat (u ''Team'') (u ''English'') = u ''Team''"
    "get_translated_stat (u ''Games Played'') (u ''English'') = u ''Games Played''"
    "get_translated_stat (u ''Runs'') (u ''English'') = u ''Runs''"
    "get_translated_stat (u ''Hits'') (u ''English'') = u ''Hits''"
    "get_translated_stat (u ''Home Runs'') (u ''English'') = u ''Home Runs''"
    "get_translated_stat (u ''Stolen Bases'') (u ''English'') = u ''Stolen Bases''"
    "get_translated_stat (u ''RBI'') (u ''English'') = u ''RBI''"
    by (simp_all add: get_translated_stat_def translations_stats_def u_eq_iff)
  have t2: "read_shown (u ''Runs'')
      (case stats_df_two_columns pandas_keep (u ''English'')
              (map (\<lambda>k. (k, infer_column pandas_keep (map (\<lambda>rec. cell rec k) [flat1, flat2])))
                 shown_columns) of
         (header, body) \<Rightarrow> St_dataframe header body) = [Float None, Float (Some 9007199254740992)]"
    unfolding frame2
    by (simp add: stats_df_two_columns_def melt_def tr read_stat_def u_eq_iff)
  have s1: "show_splits pandas_keep (u ''English'') [] [split_null_runs, split_big_runs] =
      ((case stats_df_two_columns pandas_keep (u ''English'')
              (map (\<lambda>k. (k, infer_column pandas_keep (map (\<lambda>rec. cell rec k) ([] @ [flat1]))))
                 shown_columns) of
         (header, body) \<Rightarrow> St_dataframe header body)
       # fst (show_splits pandas_keep (u ''English'') ([] @ [flat1]) [split_big_runs]),
       snd (show_splits pandas_keep (u ''English'') ([] @ [flat1]) [split_big_runs]))"
    by (rule show_splits_step [OF inv0 f1])
  have s2: "show_splits pandas_keep (u ''English'') ([] @ [flat1]) [split_big_runs] =
      ((case stats_df_two_columns pandas_keep (u ''English'')
              (map (\<lambda>k. (k, infer_column pandas_keep
                                (map (\<lambda>rec. cell rec k) (([] @ [flat1]) @ [flat2]))))
                 shown_columns) of
         (header, body) \<Rightarrow> St_dataframe header body)
       # fst (show_splits pandas_keep (u ''English'') (([] @ [flat1]) @ [flat2]) []),
       snd (show_splits pandas_keep (u ''English'') (([] @ [flat1]) @ [flat2]) []))"
    by (rule show_splits_step [OF inv1 f2])
  have b: "read_shown (u ''Runs'')
      (last (fst (show_splits pandas_keep (u ''English'') [] [split_null_runs, split_big_runs]))) =
      [Float None, Float (Some 9007199254740992)]"
    unfolding s1 s2 using t2 by (simp only: fst_conv last.simps append_Nil append_Cons
        show_splits.simps list.simps if_True if_False simp_thms)
  show ?thesis using a b by simp
qed

text \<open>
  Claim C7, amended: take a split whose team and player parts are absent or objects and
  whose stat part is an object with the six counters, the team name and the counters
  being strings or integers of 64 bits, met in the loop when \<open>cleaned_data\<close> holds
  flattened splits of the same kind. Flattening raises nothing, the table shown for it
  has the headers Stat and Value, and for each of the six counters the rows named by the
  (translated) stat name hold the values of the earlier splits followed by the counter
  of this split, each the decoded value itself. For the first split of a group these
  rows are the counter alone.
\<close>

theorem show_splits_round_trip:
  assumes inv: "list_all (\<lambda>rec. map fst rec = flattened_keys \<and>
                              list_all (\<lambda>c. plain (cell rec c)) shown_columns) cleaned_data"
    and team: "get_nested split (u ''team'') (u ''name'') = Inr team"
    and player: "get_nested split (u ''player'') (u ''fullName'') = Inr player"
    and stat: "dict_get split (u ''stat'') (JObj []) = Inr (JObj stat)"
    and counters:
      "map_of stat (u ''gamesPlayed'') = Some games_played"
      "map_of stat (u ''runs'') = Some runs"
      "map_of stat (u ''hits'') = Some hits"
      "map_of stat (u ''homeRuns'') = Some home_runs"
      "map_of stat (u ''stolenBases'') = Some stolen_bases"
      "map_of stat (u ''rbi'') = Some rbi"
    and plain: "list_all plain [team, games_played, runs, hits, home_runs, stolen_bases, rbi]"
  shows "\<exists>body flat.
           flattened_split split = Inr flat \<and>
           show_splits pd language cleaned_data (split # rest) =
             (St_dataframe (u ''Stat'', u ''Value'') body #
                fst (show_splits pd language (cleaned_data @ [flat]) rest),
              snd (show_splits pd language (cleaned_data @ [flat]) rest)) \<and>
           read_stat (get_translated_stat (u ''Games Played'') language) body =
             map (\<lambda>rec. Py (cell rec (u ''Games Played''))) cleaned_data @ [Py games_played] \<and>
           read_stat (get_translated_stat (u ''Runs'') language) body =
             map (\<lambda>rec. Py (cell rec (u ''Runs''))) cleaned_data @ [Py runs] \<and>
           read_stat (get_translated_stat (u ''Hits'') language) body =
             map (\<lambda>rec. Py (cell rec (u ''Hits''))) cleaned_data @ [Py hits] \<and>
           read_stat (get_translated_stat (u ''Home Runs'') language) body =
             map (\<lambda>rec. Py (cell rec (u ''Home Runs''))) cleaned_data @ [Py home_runs] \<and>
           read_stat (get_translated_stat (u ''Stolen Bases'') language) body =
             map (\<lambda>rec. Py (cell rec (u ''Stolen Bases''))) cleaned_data @ [Py stolen_bases] \<and>
           read_stat (get_translated_stat (u ''RBI'') language) body =
             map (\<lambda>rec. Py (cell rec (u ''RBI''))) cleaned_data @ [Py rbi]"
proof -
  define flat where "flat =
    [(u ''Team'', team), (u ''Player'', player), (u ''Games Played'', games_played),
     (u ''Runs'', runs), (u ''Hits'', hits), (u ''Home Runs'', home_runs),
     (u ''Stolen Bases'', stolen_bases), (u ''RBI'', rbi)]"
  define records where "records = cleaned_data @ [flat]"
  define body where "body =
    concat (map (\<lambda>c. map (\<lambda>rec. (get_translated_stat c language, Py (cell rec c))) records)
              shown_columns)"
  have gets:
    "get_nested split (u ''stat'') (u ''gamesPlayed'') = Inr games_played"
    "get_nested split (u ''stat'') (u ''runs'') = Inr runs"
    "get_nested split (u ''stat'') (u ''hits'') = Inr hits"
    "get_nested split (u ''stat'') (u ''homeRuns'') = Inr home_runs"
    "get_nested split (u ''stat'') (u ''stolenBases'') = Inr stolen_bases"
    "get_nested split (u ''stat'') (u ''rbi'') = Inr rbi"
    by (simp_all add: get_nested_def try_bind_def stat counters)
  have flat: "flattened_split split = Inr flat"
    by (simp add: flattened_split_def try_bind_def team player gets flat_def)
  have cells:
    "cell flat (u ''Team'') = team"
    "cell flat (u ''Games Played'') = games_played" "cell flat (u ''Runs'') = runs"
    "cell flat (u ''Hits'') = hits" "cell flat (u ''Home Runs'') = home_runs"
    "cell flat (u ''Stolen Bases'') = stolen_bases" "cell flat (u ''RBI'') = rbi"
    by (simp_all add: cell_def flat_def u_eq_iff)
  have keys: "list_all (\<lambda>flat. map fst flat = flattened_keys) cleaned_data"
    using inv by (auto simp: list_all_iff)
  have flat_plain: "list_all (\<lambda>c. plain (cell flat c)) shown_columns"
    using plain by (simp add: shown_columns_def cells)
  have cols_plain: "list_all plain (map (\<lambda>rec. cell rec k) records)"
    if "k \<in> set shown_columns" for k
    using that inv flat_plain by (auto simp: records_def list_all_iff)
  have ne: "records \<noteq> []" by (simp add: records_def)
  have table: "stats_df_two_columns pd language
      (map (\<lambda>k. (k, infer_column pd (map (\<lambda>rec. cell rec k) records))) shown_columns) =
      ((u ''Stat'', u ''Value''), body)"
    unfolding body_def using cols_plain ne by (rule two_columns_plain)
  have shown: "show_splits pd language cleaned_data (split # rest) =
      (St_dataframe (u ''Stat'', u ''Value'') body #
         fst (show_splits pd language (cleaned_data @ [flat]) rest),
       snd (show_splits pd language (cleaned_data @ [flat]) rest))"
    unfolding show_splits_step [OF keys flat] records_def [symmetric] table by simp
  have cols: "u ''Games Played'' \<in> set shown_columns" "u ''Runs'' \<in> set shown_columns"
    "u ''Hits'' \<in> set shown_columns" "u ''Home Runs'' \<in> set shown_columns"
    "u ''Stolen Bases'' \<in> set shown_columns" "u ''RBI'' \<in> set shown_columns"
    by (simp_all add: shown_columns_def)
  have reads: "read_stat (get_translated_stat c language) body =
        map (\<lambda>rec. Py (cell rec c)) cleaned_data @ [Py (cell flat c)]"
    if "c \<in> set shown_columns" for c
    using read_stat_body [OF that, of language records] by (simp add: body_def records_def)
  show ?thesis
    using flat shown reads [OF cols(1)] reads [OF cols(2)] reads [OF cols(3)]
      reads [OF cols(4)] reads [OF cols(5)] reads [OF cols(6)]
    unfolding cells by blast
qed

theorem show_splits_round_trip_witness:
  "list_all (\<lambda>rec. map fst rec = flattened_keys \<and>
                    list_all (\<lambda>c. plain (cell rec c)) shown_columns) [] \<and>
   get_nested example_split (u ''team'') (u ''name'') = Inr (JStr (u ''New York Yankees'')) \<and>
   get_nested example_split (u ''player'') (u ''fullName'') = Inr (JStr (u ''Aaron Judge'')) \<and>
   list_all plain [JStr (u ''New York Yankees''), JInt 158, JInt 122, JInt 180, JInt 58,
                   JInt 10, JInt 144] \<and>
   (\<exists>body flat.
      flattened_split example_split = Inr flat \<and>
      show_splits pandas_keep (u ''Spanish'') [] [example_split] =
        ([St_dataframe (u ''Stat'', u ''Value'') body], None) \<and>
      read_stat (u ''Juegos Jugados'') body = [Py (JInt 158)] \<and>
      read_stat (u ''Carreras'') body = [Py (JInt 122)] \<and>
      read_stat (u ''Hits'') body = [Py (JInt 180)] \<and>
      read_stat (u ''Jonrones'') body = [Py (JInt 58)] \<and>
      read_stat (u ''Bases Robadas'') body = [Py (JInt 10)] \<and>
      read_stat (u ''Carreras Impulsadas'') body = [Py (JInt 144)])"
proof -
  have team: "get_nested example_split (u ''team'') (u ''name'') = Inr (JStr (u ''New York Yankees''))"
    and player: "get_nested example_split (u ''player'') (u ''fullName'') = Inr (JStr (u ''Aaron Judge''))"
    and stat: "dict_get example_split (u ''stat'') (JObj []) =
      Inr (JObj [(u ''gamesPlayed'', JInt 158), (u ''groundOuts'', JInt 81),
                 (u ''runs'', JInt 122), (u ''homeRuns'', JInt 58),
                 (u ''hits'', JInt 180), (u ''avg'', JStr (u ''.322'')),
                 (u ''stolenBases'', JInt 10), (u ''rbi'', JInt 144)])"
    by (simp_all add: get_nested_def try_bind_def example_split_def u_eq_iff)
  have tr: "get_translated_stat (u ''Games Played'') (u ''Spanish'') = u ''Juegos Jugados''"
    "get_translated_stat (u ''Runs'') (u ''Spanish'') = u ''Carreras''"
    "get_translated_stat (u ''Hits'') (u ''Spanish'') = u ''Hits''"
    "get_translated_stat (u ''Home Runs'') (u ''Spanish'') = u ''Jonrones''"
    "get_translated_stat (u ''Stolen Bases'') (u ''Spanish'') = u ''Bases Robadas''"
    "get_translated_stat (u ''RBI'') (u ''Spanish'') = u ''Carreras Impulsadas''"
    by (simp_all add: get_translated_stat_def translations_stats_def u_eq_iff)
  have inv: "list_all (\<lambda>rec. map fst rec = flattened_keys \<and>
                    list_all (\<lambda>c. plain (cell rec c)) shown_columns) []" by simp
  have plain: "list_all plain [JStr (u ''New York Yankees''), JInt 158, JInt 122, JInt 180,
                   JInt 58, JInt 10, JInt 144]" by simp
  from show_splits_round_trip [OF inv team player stat _ _ _ _ _ _ plain,
      of pandas_keep "u ''Spanish'' " "[]"]
  show ?thesis
    using team player plain by (simp add: u_eq_iff tr)
qed

section \<open>Properties of the analysis flow\<close>

text \<open>
  Claim C6, as stated: when the roster fetch, the resolution or the detail fetch fails,
  no identification event has been written. In the world \<open>directory_down\<close> the roster
  fetch fails, and the event is in the store.
\<close>

theorem analyze_write_before_roster_counterexample:
  "fst (get_all_players directory_down 2024) = None \<and>
   snd (analyze ieq_ascii (\<lambda>v. []) pandas_keep directory_down (u ''fan@example.com'')
          (u ''English'')) =
     [\<lparr>doc_email = u ''fan@example.com'', doc_player_name = u ''Aaron Judge'',
       doc_language = u ''English''\<rparr>]"
  by (simp add: analyze_def get_player_name_from_image_def save_user_data_def directory_down_def
      get_all_players_def process_endpoint_url_def strip_def is_space_def u_def)

text \<open>
  Claim C6, amended: the identification event is written as soon as the email is not
  empty, the image model has answered with a name that is not empty, and the store
  accepts the write; it is written before the roster is fetched, and whether it is
  written does not depend on the roster fetch, the resolution or the detail fetch. When
  the email is empty or the image model gives no name, nothing is written.
\<close>

theorem analyze_written:
  "snd (analyze ieq repr pd w email language) =
     (case (gemini_text w, users_add w) of
        (Inr text, None) \<Rightarrow>
          if email \<noteq> [] \<and> strip text \<noteq> []
          then [\<lparr>doc_email = email, doc_player_name = strip text, doc_language = language\<rparr>]
          else []
      | _ \<Rightarrow> [])"
  by (simp add: analyze_def get_player_name_from_image_def save_user_data_def
      split: sum.splits option.splits)

theorem analyze_written_witness:
  "snd (analyze ieq_ascii (\<lambda>v. []) pandas_keep
          (directory_down\<lparr>gemini_text := Inl ServiceError\<rparr>)
          (u ''fan@example.com'') (u ''English'')) = []"
  using analyze_written
          [of ieq_ascii "\<lambda>v. []" pandas_keep
              "directory_down\<lparr>gemini_text := Inl ServiceError\<rparr>"
              "u ''fan@example.com''" "u ''English''"]
  by (simp add: directory_down_def)

end
